theory Spec2Isabelle
  imports Complex_Main "HOL-Library.Multiset"
begin

section \<open>Python values\<close>

text \<open>
  The values that flow through the handlers of \<open>app.py\<close>: what \<open>request.get_json()\<close>
  decodes from a JSON body (\<open>None\<close>, \<open>bool\<close>, \<open>int\<close>, \<open>float\<close>, \<open>str\<close>, \<open>list\<close>,
  \<open>dict\<close> with string keys) and what the database connector hands back in a result row
  (\<open>int\<close>, \<open>str\<close>, \<open>None\<close>, \<open>decimal.Decimal\<close>, \<open>datetime.date\<close>, \<open>datetime.datetime\<close>).

  A \<open>float\<close> is represented by the rational it denotes. \<open>PDecimal n\<close> is the
  \<open>Decimal\<close> read from a \<open>DECIMAL(10, 2)\<close> column, \<open>n\<close> counting hundredths.
  A \<open>dict\<close> is an association list in insertion order, the first pair of a key being
  the one that counts.
\<close>

record date =
  year :: nat
  month :: nat
  day :: nat

record datetime = date +
  hour :: nat
  minute :: nat
  second :: nat

datatype pyval =
    PNone
  | PBool bool
  | PInt int
  | PFloat rat
  | PStr string
  | PList "pyval list"
  | PDict "(string \<times> pyval) list"
  | PDecimal int
  | PDate date
  | PDatetime datetime

text \<open>
  The exceptions the handlers can meet. \<open>MySQLError errno msg\<close> stands for
  \<open>mysql.connector.Error\<close> and its subclasses; every other constructor is an
  \<open>Exception\<close> that is not a \<open>mysql.connector.Error\<close>.
\<close>

datatype pyexc =
    MySQLError int string
  | PyException string
  | TypeError string
  | KeyError string
  | AttributeError string
  | UnboundLocalError string
  | HTTPException nat

text \<open>Truth value testing, as \<open>not x\<close> and \<open>if x\<close> use it.\<close>

fun truthy :: "pyval \<Rightarrow> bool" where
  "truthy PNone = False"
| "truthy (PBool b) = b"
| "truthy (PInt i) = (i \<noteq> 0)"
| "truthy (PFloat r) = (r \<noteq> 0)"
| "truthy (PStr s) = (s \<noteq> [])"
| "truthy (PList xs) = (xs \<noteq> [])"
| "truthy (PDict kvs) = (kvs \<noteq> [])"
| "truthy (PDecimal n) = (n \<noteq> 0)"
| "truthy (PDate d) = True"
| "truthy (PDatetime t) = True"

text \<open>\<open>needle in s\<close> for two strings: \<open>needle\<close> occurs in \<open>s\<close> as a contiguous run.\<close>

fun starts_with :: "string \<Rightarrow> string \<Rightarrow> bool" where
  "starts_with [] s = True"
| "starts_with (c # cs) [] = False"
| "starts_with (c # cs) (d # ds) = (c = d \<and> starts_with cs ds)"

fun substring :: "string \<Rightarrow> string \<Rightarrow> bool" where
  "substring needle [] = (needle = [])"
| "substring needle (c # cs) = (starts_with needle (c # cs) \<or> substring needle cs)"

text \<open>
  \<open>key in x\<close> for a string \<open>key\<close>: substring test on a \<open>str\<close>, element test on a
  \<open>list\<close> (a \<open>str\<close> equals only an equal \<open>str\<close>), key test on a \<open>dict\<close>, and
  \<open>TypeError\<close> on everything that is not a container.
\<close>

definition not_iterable :: pyexc where
  "not_iterable = TypeError ''argument is not iterable''"

fun py_in :: "string \<Rightarrow> pyval \<Rightarrow> pyexc + bool" where
  "py_in key (PStr s) = Inr (substring key s)"
| "py_in key (PList xs) = Inr (PStr key \<in> set xs)"
| "py_in key (PDict kvs) = Inr (key \<in> fst ` set kvs)"
| "py_in key PNone = Inl not_iterable"
| "py_in key (PBool b) = Inl not_iterable"
| "py_in key (PInt i) = Inl not_iterable"
| "py_in key (PFloat r) = Inl not_iterable"
| "py_in key (PDecimal n) = Inl not_iterable"
| "py_in key (PDate d) = Inl not_iterable"
| "py_in key (PDatetime t) = Inl not_iterable"

text \<open>
  \<open>x[key]\<close> for a string \<open>key\<close>: the value of the key in a \<open>dict\<close> (\<open>KeyError\<close> when
  it has none) and \<open>TypeError\<close> on every other value (a \<open>str\<close> and a \<open>list\<close> take
  integer indices only, the rest is not subscriptable).
\<close>

fun subscript :: "pyval \<Rightarrow> string \<Rightarrow> pyexc + pyval" where
  "subscript (PDict kvs) key =
     (case map_of kvs key of None \<Rightarrow> Inl (KeyError key) | Some v \<Rightarrow> Inr v)"
| "subscript x key = Inl (TypeError ''indices must be integers or value is not subscriptable'')"

text \<open>\<open>x.get(key)\<close>: \<open>None\<close> for a missing key of a \<open>dict\<close>; only a \<open>dict\<close> has it.\<close>

fun py_get :: "pyval \<Rightarrow> string \<Rightarrow> pyexc + pyval" where
  "py_get (PDict kvs) key =
     (case map_of kvs key of None \<Rightarrow> Inr PNone | Some v \<Rightarrow> Inr v)"
| "py_get x key = Inl (AttributeError ''get'')"


text \<open>
  \<open>d[key] = v\<close> on a \<open>dict\<close>: an existing key keeps its place and takes the new
  value, a new key goes to the end. \<open>dict(pairs)\<close> stores the pairs one after the other.
\<close>

fun dict_set :: "string \<Rightarrow> pyval \<Rightarrow> (string \<times> pyval) list \<Rightarrow> (string \<times> pyval) list" where
  "dict_set k v [] = [(k, v)]"
| "dict_set k v ((k', v') # kvs) =
     (if k = k' then (k, v) # kvs else (k', v') # dict_set k v kvs)"

definition dict_of :: "(string \<times> pyval) list \<Rightarrow> (string \<times> pyval) list" where
  "dict_of pairs = foldl (\<lambda>d (k, v). dict_set k v d) [] pairs"

text \<open>
  \<open>datetime.isoformat()\<close> of a value without microseconds and without time zone, which
  is what a \<open>TIMESTAMP\<close> column yields: \<open>YYYY-MM-DDTHH:MM:SS\<close>, every field padded
  with zeros to its width. \<open>digits k n\<close> is \<open>n\<close> written with \<open>k\<close> decimal digits
  (\<open>n < 10 ^ k\<close> for the fields of a well-formed value).
\<close>

fun digits :: "nat \<Rightarrow> nat \<Rightarrow> string" where
  "digits 0 n = []"
| "digits (Suc k) n = digits k (n div 10) @ [''0123456789'' ! (n mod 10)]"

definition isoformat :: "datetime \<Rightarrow> string" where
  "isoformat t =
     digits 4 (year t) @ ''-'' @ digits 2 (month t) @ ''-'' @ digits 2 (day t) @ ''T'' @
     digits 2 (hour t) @ '':'' @ digits 2 (minute t) @ '':'' @ digits 2 (second t)"

section \<open>Responses and requests\<close>

text \<open>
  A handler returns \<open>jsonify(obj), code\<close>: the Python object handed to \<open>jsonify\<close>
  and the status code. \<open>request.get_json()\<close> either yields the decoded body or, on a
  request without a decodable JSON body, raises an HTTP exception (where a Flask version
  yields \<open>None\<close> instead, the request is \<open>Body PNone\<close>).
\<close>

record response =
  payload :: pyval
  status :: nat

definition error_response :: "string \<Rightarrow> nat \<Rightarrow> response" where
  "error_response text code = \<lparr>payload = PDict [(''error'', PStr text)], status = code\<rparr>"

datatype request_body = NoBody | Body pyval

fun get_json :: "request_body \<Rightarrow> pyexc + pyval" where
  "get_json NoBody = Inl (HTTPException 400)"
| "get_json (Body data) = Inr data"

section \<open>The employees table and the database driver\<close>

text \<open>
  The handlers of \<open>app.py\<close> talk to a MySQL server through MySQL Connector/Python.
  Neither is part of the repository; what follows models them from the \<open>CREATE TABLE\<close>
  statement of \<open>init_database\<close> and from the documented behaviour of the connector's
  pool, connections and cursors, and leaves as parameters what the repository does not
  fix: how the server converts a value for a column, and which calls fail.

  The table that \<open>init_database\<close> creates (\<open>CREATE TABLE IF NOT EXISTS employees\<close>):
  \<open>id INT AUTO_INCREMENT PRIMARY KEY\<close>, three \<open>NOT NULL\<close> text columns, \<open>email\<close>
  \<open>UNIQUE\<close>, three nullable text columns, \<open>salary DECIMAL(10, 2)\<close>, \<open>hire_date DATE\<close>
  and two \<open>TIMESTAMP\<close> columns that default to \<open>CURRENT_TIMESTAMP\<close>. A row holds a
  value of its column's type in every column; \<open>row_tuple\<close> is the tuple the connector
  returns for it and \<open>columns\<close> the names in \<open>cursor.description\<close>.
\<close>

record employee_row =
  row_id :: int
  first_name :: string
  last_name :: string
  email :: string
  phone :: "string option"
  department :: "string option"
  position :: "string option"
  salary :: "int option"
  hire_date :: "date option"
  created_at :: datetime
  updated_at :: datetime

definition columns :: "string list" where
  "columns = [''id'', ''first_name'', ''last_name'', ''email'', ''phone'', ''department'',
     ''position'', ''salary'', ''hire_date'', ''created_at'', ''updated_at'']"

definition nullable :: "('a \<Rightarrow> pyval) \<Rightarrow> 'a option \<Rightarrow> pyval" where
  "nullable f x = (case x of None \<Rightarrow> PNone | Some v \<Rightarrow> f v)"

definition row_tuple :: "employee_row \<Rightarrow> pyval list" where
  "row_tuple r =
     [PInt (row_id r), PStr (first_name r), PStr (last_name r), PStr (email r),
      nullable PStr (phone r), nullable PStr (department r), nullable PStr (position r),
      nullable PDecimal (salary r), nullable PDate (hire_date r),
      PDatetime (created_at r), PDatetime (updated_at r)]"

text \<open>
  What the database server does with a value that is not \<open>None\<close> when it stores it in
  a column is not written in this repository (it depends on the server and its SQL
  mode), so it is a parameter: \<open>sql_varchar n v\<close>, \<open>sql_decimal v\<close> and \<open>sql_date v\<close>
  give the stored value or the error (number and message) for a \<open>VARCHAR(n)\<close>, the
  \<open>DECIMAL(10, 2)\<close> and the \<open>DATE\<close> column; \<open>email_key\<close> is the collation key under
  which the \<open>UNIQUE\<close> index compares two emails.
\<close>

record server =
  sql_varchar :: "nat \<Rightarrow> pyval \<Rightarrow> (int \<times> string) + string"
  sql_decimal :: "pyval \<Rightarrow> (int \<times> string) + int"
  sql_date :: "pyval \<Rightarrow> (int \<times> string) + date"
  email_key :: "string \<Rightarrow> string"

definition not_null :: "(pyval \<Rightarrow> (int \<times> string) + 'a) \<Rightarrow> pyval \<Rightarrow> (int \<times> string) + 'a" where
  "not_null store v = (case v of PNone \<Rightarrow> Inl (1048, ''Column cannot be null'') | _ \<Rightarrow> store v)"

definition or_null :: "(pyval \<Rightarrow> (int \<times> string) + 'a) \<Rightarrow> pyval \<Rightarrow> (int \<times> string) + 'a option" where
  "or_null store v =
     (case v of PNone \<Rightarrow> Inr None
      | _ \<Rightarrow> (case store v of Inl e \<Rightarrow> Inl e | Inr x \<Rightarrow> Inr (Some x)))"

definition and_then :: "'e + 'a \<Rightarrow> ('a \<Rightarrow> 'e + 'b) \<Rightarrow> 'e + 'b" where
  "and_then x f = (case x of Inl e \<Rightarrow> Inl e | Inr a \<Rightarrow> f a)"

text \<open>
  Storing the eight values of the \<open>INSERT\<close> in a new row with the given id and
  timestamp: the \<open>NOT NULL\<close> columns refuse \<open>None\<close>, the other columns take it as
  \<open>NULL\<close>, and every other value is stored as the server converts it.
\<close>

definition new_row ::
  "server \<Rightarrow> int \<Rightarrow> datetime \<Rightarrow> pyval \<Rightarrow> pyval \<Rightarrow> pyval \<Rightarrow> pyval \<Rightarrow> pyval \<Rightarrow> pyval \<Rightarrow> pyval \<Rightarrow> pyval
     \<Rightarrow> (int \<times> string) + employee_row" where
  "new_row srv i now v1 v2 v3 v4 v5 v6 v7 v8 =
     and_then (not_null (sql_varchar srv 100) v1) (\<lambda>c1.
     and_then (not_null (sql_varchar srv 100) v2) (\<lambda>c2.
     and_then (not_null (sql_varchar srv 255) v3) (\<lambda>c3.
     and_then (or_null (sql_varchar srv 20) v4) (\<lambda>c4.
     and_then (or_null (sql_varchar srv 100) v5) (\<lambda>c5.
     and_then (or_null (sql_varchar srv 100) v6) (\<lambda>c6.
     and_then (or_null (sql_decimal srv) v7) (\<lambda>c7.
     and_then (or_null (sql_date srv) v8) (\<lambda>c8.
       Inr \<lparr>row_id = i, first_name = c1, last_name = c2, email = c3, phone = c4,
            department = c5, position = c6, salary = c7, hire_date = c8,
            created_at = now, updated_at = now\<rparr>))))))))"

text \<open>
  The three statements of the program. The text of each is a literal of \<open>app.py\<close>
  (white space of the multi-line \<open>INSERT\<close> literal normalised); the values travel
  apart from it, in the parameter tuple of \<open>cursor.execute\<close>.
\<close>

datatype statement =
    InsertEmployee pyval pyval pyval pyval pyval pyval pyval pyval
  | SelectEmployeeById int
  | SelectAllEmployees

fun sql_text :: "statement \<Rightarrow> string" where
  "sql_text (InsertEmployee v1 v2 v3 v4 v5 v6 v7 v8) =
     ''INSERT INTO employees (first_name, last_name, email, phone, department, position, salary, hire_date) VALUES (%s, %s, %s, %s, %s, %s, %s, %s)''"
| "sql_text (SelectEmployeeById i) = ''SELECT * FROM employees WHERE id = %s''"
| "sql_text SelectAllEmployees = ''SELECT * FROM employees ORDER BY id''"

fun sql_params :: "statement \<Rightarrow> pyval list" where
  "sql_params (InsertEmployee v1 v2 v3 v4 v5 v6 v7 v8) = [v1, v2, v3, v4, v5, v6, v7, v8]"
| "sql_params (SelectEmployeeById i) = [PInt i]"
| "sql_params SelectAllEmployees = []"

text \<open>
  The world outside the handlers. \<open>connection_pool\<close> is the module's global of that
  name: \<open>None\<close>, or a pool with so many idle connections. \<open>employees\<close> holds the
  committed rows of the table in insertion order, \<open>auto_increment\<close> the next id the
  table hands out, \<open>current_timestamp\<close> the server's clock. \<open>driver_script\<close> gives the
  outcome of the coming calls into the driver that talk to the server, one entry per
  call: \<open>None\<close> lets the call do its work, a fault makes it raise
  \<open>mysql.connector.Error\<close> with that number and message, the connection being lost or
  not; an exhausted script means no more faults. \<open>statement_log\<close> lists what was passed
  to \<open>cursor.execute\<close>.
\<close>

datatype fault = Fault (errno: int) (msg: string) (connection_lost: bool)

record world =
  connection_pool :: "nat option"
  employees :: "employee_row list"
  auto_increment :: int
  current_timestamp :: datetime
  driver_script :: "fault option list"
  statement_log :: "(string \<times> pyval list) list"

record connection =
  connected :: bool
  pending :: "employee_row list"

record cursor =
  lastrowid :: int
  result_set :: "pyval list list"

text \<open>
  The state of one run of a handler: the world and the two local variables that the
  \<open>finally\<close> clause looks at, unbound (\<open>None\<close>) until assigned.
\<close>

record frame =
  world :: world
  connection :: "connection option"
  cursor :: "cursor option"

definition next_outcome :: "world \<Rightarrow> fault option \<times> world" where
  "next_outcome w =
     (case driver_script w of [] \<Rightarrow> (None, w) | f # fs \<Rightarrow> (f, w\<lparr>driver_script := fs\<rparr>))"

definition raised :: "fault \<Rightarrow> pyexc" where
  "raised f = MySQLError (errno f) (msg f)"

text \<open>
  \<open>get_db_connection\<close> of \<open>app.py\<close>. \<open>connection_pool.get_connection()\<close> takes an
  idle connection out of the pool and raises \<open>PoolError\<close> (a \<open>mysql.connector.Error\<close>)
  when none is idle.
\<close>

definition pool_get_connection :: "nat \<Rightarrow> world \<Rightarrow> (pyexc + connection) \<times> world" where
  "pool_get_connection idle w =
     (case next_outcome w of
        (Some f, w1) \<Rightarrow> (Inl (raised f), w1)
      | (None, w1) \<Rightarrow>
          if idle = 0 then (Inl (MySQLError (- 1) ''Failed getting connection; pool exhausted''), w1)
          else (Inr \<lparr>connected = True, pending = []\<rparr>, w1\<lparr>connection_pool := Some (idle - 1)\<rparr>))"

definition get_db_connection :: "world \<Rightarrow> (pyexc + connection) \<times> world" where
  "get_db_connection w =
     (case connection_pool w of
        None \<Rightarrow> (Inl (PyException ''Database connection pool not available''), w)
      | Some idle \<Rightarrow> pool_get_connection idle w)"

text \<open>
  The calls on the connection and the cursor. A call on a local variable that is not
  bound raises \<open>UnboundLocalError\<close>. \<open>connection.cursor()\<close> raises when the connection
  is not available. \<open>cursor.execute\<close> logs the statement, then either fails as the
  script says or runs the statement on the rows the connection sees (the committed
  ones and its own uncommitted ones). \<open>connection.commit()\<close> makes the connection's
  rows part of the table.
\<close>

definition open_cursor :: "frame \<Rightarrow> (pyexc + unit) \<times> frame" where
  "open_cursor fr =
     (case connection fr of
        None \<Rightarrow> (Inl (UnboundLocalError ''connection''), fr)
      | Some c \<Rightarrow>
          if connected c then (Inr (), fr\<lparr>cursor := Some \<lparr>lastrowid = 0, result_set = []\<rparr>\<rparr>)
          else (Inl (MySQLError (- 1) ''MySQL Connection not available''), fr))"

text \<open>
  The \<open>INSERT\<close>: the new row takes the counter of the table as its id and the clock
  in both timestamps. A value the server refuses for its column, or an email key that
  a row already has (error 1062), makes the statement raise and stores nothing; the
  counter moves on once the id is handed out, also when the row is then refused for
  its email.
\<close>

definition run_insert ::
  "server \<Rightarrow> pyval \<Rightarrow> pyval \<Rightarrow> pyval \<Rightarrow> pyval \<Rightarrow> pyval \<Rightarrow> pyval \<Rightarrow> pyval \<Rightarrow> pyval
     \<Rightarrow> connection \<Rightarrow> cursor \<Rightarrow> world \<Rightarrow> (pyexc + unit) \<times> frame" where
  "run_insert srv v1 v2 v3 v4 v5 v6 v7 v8 c cur w =
     (case new_row srv (auto_increment w) (current_timestamp w) v1 v2 v3 v4 v5 v6 v7 v8 of
        Inl (n, m) \<Rightarrow> (Inl (MySQLError n m), \<lparr>world = w, connection = Some c, cursor = Some cur\<rparr>)
      | Inr r \<Rightarrow>
          if email_key srv (email r) \<in> email_key srv ` email ` set (employees w @ pending c)
          then (Inl (MySQLError 1062 ''Duplicate entry for key email''),
                \<lparr>world = w\<lparr>auto_increment := auto_increment w + 1\<rparr>,
                 connection = Some c, cursor = Some cur\<rparr>)
          else (Inr (),
                \<lparr>world = w\<lparr>auto_increment := auto_increment w + 1\<rparr>,
                 connection = Some (c\<lparr>pending := pending c @ [r]\<rparr>),
                 cursor = Some \<lparr>lastrowid = row_id r, result_set = []\<rparr>\<rparr>))"

fun run_statement :: "server \<Rightarrow> statement \<Rightarrow> connection \<Rightarrow> cursor \<Rightarrow> world \<Rightarrow> (pyexc + unit) \<times> frame" where
  "run_statement srv (InsertEmployee v1 v2 v3 v4 v5 v6 v7 v8) c cur w =
     run_insert srv v1 v2 v3 v4 v5 v6 v7 v8 c cur w"
| "run_statement srv (SelectEmployeeById i) c cur w =
     (Inr (), \<lparr>world = w, connection = Some c,
        cursor = Some (cur\<lparr>result_set :=
          map row_tuple (filter (\<lambda>r. row_id r = i) (employees w @ pending c))\<rparr>)\<rparr>)"
| "run_statement srv SelectAllEmployees c cur w =
     (Inr (), \<lparr>world = w, connection = Some c,
        cursor = Some (cur\<lparr>result_set :=
          map row_tuple (sort_key row_id (employees w @ pending c))\<rparr>)\<rparr>)"

definition fails :: "fault \<Rightarrow> connection \<Rightarrow> connection" where
  "fails f c = c\<lparr>connected := connected c \<and> \<not> connection_lost f\<rparr>"

definition execute :: "server \<Rightarrow> statement \<Rightarrow> frame \<Rightarrow> (pyexc + unit) \<times> frame" where
  "execute srv stmt fr =
     (case (connection fr, cursor fr) of
        (Some c, Some cur) \<Rightarrow>
          (case next_outcome ((world fr)\<lparr>statement_log :=
                  statement_log (world fr) @ [(sql_text stmt, sql_params stmt)]\<rparr>) of
             (Some f, w1) \<Rightarrow> (Inl (raised f), fr\<lparr>world := w1, connection := Some (fails f c)\<rparr>)
           | (None, w1) \<Rightarrow> run_statement srv stmt c cur w1)
      | (None, _) \<Rightarrow> (Inl (UnboundLocalError ''connection''), fr)
      | (_, None) \<Rightarrow> (Inl (UnboundLocalError ''cursor''), fr))"

definition commit :: "frame \<Rightarrow> (pyexc + unit) \<times> frame" where
  "commit fr =
     (case connection fr of
        None \<Rightarrow> (Inl (UnboundLocalError ''connection''), fr)
      | Some c \<Rightarrow>
          (case next_outcome (world fr) of
             (Some f, w1) \<Rightarrow> (Inl (raised f), fr\<lparr>world := w1, connection := Some (fails f c)\<rparr>)
           | (None, w1) \<Rightarrow>
               (Inr (), fr\<lparr>world := w1\<lparr>employees := employees w1 @ pending c\<rparr>,
                           connection := Some (c\<lparr>pending := []\<rparr>)\<rparr>)))"

text \<open>
  \<open>cursor.fetchone()\<close> gives the first row of the result, or \<open>None\<close>;
  \<open>cursor.fetchall()\<close> gives all of them. Both read from the server.
\<close>

definition fetchone :: "frame \<Rightarrow> (pyexc + pyval list option) \<times> frame" where
  "fetchone fr =
     (case (connection fr, cursor fr) of
        (Some c, Some cur) \<Rightarrow>
          (case next_outcome (world fr) of
             (Some f, w1) \<Rightarrow> (Inl (raised f), fr\<lparr>world := w1, connection := Some (fails f c)\<rparr>)
           | (None, w1) \<Rightarrow>
               (case result_set cur of
                  [] \<Rightarrow> (Inr None, fr\<lparr>world := w1\<rparr>)
                | t # ts \<Rightarrow> (Inr (Some t), fr\<lparr>world := w1, cursor := Some (cur\<lparr>result_set := ts\<rparr>)\<rparr>)))
      | (None, _) \<Rightarrow> (Inl (UnboundLocalError ''connection''), fr)
      | (_, None) \<Rightarrow> (Inl (UnboundLocalError ''cursor''), fr))"

definition fetchall :: "frame \<Rightarrow> (pyexc + pyval list list) \<times> frame" where
  "fetchall fr =
     (case (connection fr, cursor fr) of
        (Some c, Some cur) \<Rightarrow>
          (case next_outcome (world fr) of
             (Some f, w1) \<Rightarrow> (Inl (raised f), fr\<lparr>world := w1, connection := Some (fails f c)\<rparr>)
           | (None, w1) \<Rightarrow>
               (Inr (result_set cur), fr\<lparr>world := w1, cursor := Some (cur\<lparr>result_set := []\<rparr>)\<rparr>))
      | (None, _) \<Rightarrow> (Inl (UnboundLocalError ''connection''), fr)
      | (_, None) \<Rightarrow> (Inl (UnboundLocalError ''cursor''), fr))"

text \<open>
  \<open>connection.close()\<close> on a pooled connection gives it back to the pool; what it had
  not committed is rolled back.
\<close>

definition close_connection :: "world \<Rightarrow> world" where
  "close_connection w = w\<lparr>connection_pool := map_option Suc (connection_pool w)\<rparr>"

section \<open>The handlers\<close>

text \<open>
  The body of a \<open>try\<close> block is a sequence of steps on the frame; the first step that
  raises ends it. \<open>lift\<close> is a step that only computes.
\<close>

definition seq ::
  "(frame \<Rightarrow> (pyexc + 'a) \<times> frame) \<Rightarrow> ('a \<Rightarrow> frame \<Rightarrow> (pyexc + 'b) \<times> frame)
     \<Rightarrow> frame \<Rightarrow> (pyexc + 'b) \<times> frame" where
  "seq step rest fr = (case step fr of (Inl e, fr1) \<Rightarrow> (Inl e, fr1) | (Inr a, fr1) \<Rightarrow> rest a fr1)"

definition lift :: "pyexc + 'a \<Rightarrow> frame \<Rightarrow> (pyexc + 'a) \<times> frame" where
  "lift x fr = (x, fr)"

text \<open>\<open>connection = get_db_connection()\<close>\<close>

definition acquire :: "frame \<Rightarrow> (pyexc + unit) \<times> frame" where
  "acquire fr =
     (case get_db_connection (world fr) of
        (Inl e, w1) \<Rightarrow> (Inl e, fr\<lparr>world := w1\<rparr>)
      | (Inr c, w1) \<Rightarrow> (Inr (), fr\<lparr>world := w1, connection := Some c\<rparr>))"

definition get_lastrowid :: "frame \<Rightarrow> (pyexc + int) \<times> frame" where
  "get_lastrowid fr =
     (case cursor fr of
        None \<Rightarrow> (Inl (UnboundLocalError ''cursor''), fr)
      | Some cur \<Rightarrow> (Inr (lastrowid cur), fr))"

text \<open>
  The \<open>finally\<close> clause of the three handlers:
  \<^verbatim>\<open>if 'connection' in locals() and connection.is_connected():
      cursor.close()
      connection.close()\<close>
  The response is the one the \<open>try\<close> or \<open>except\<close> part returned; an exception raised
  here replaces it.
\<close>

definition finally_clause :: "response \<Rightarrow> frame \<Rightarrow> (pyexc + response) \<times> world" where
  "finally_clause resp fr =
     (case connection fr of
        None \<Rightarrow> (Inr resp, world fr)
      | Some c \<Rightarrow>
          if connected c then
            (case cursor fr of
               None \<Rightarrow> (Inl (UnboundLocalError ''cursor''), world fr)
             | Some cur \<Rightarrow> (Inr resp, close_connection (world fr)))
          else (Inr resp, world fr))"

definition new_frame :: "world \<Rightarrow> frame" where
  "new_frame w = \<lparr>world = w, connection = None, cursor = None\<rparr>"

subsection \<open>\<open>health_check\<close>\<close>

definition health_check :: response where
  "health_check =
     \<lparr>payload = PDict [(''status'', PStr ''healthy''),
                       (''message'', PStr ''Flask Employee API is running'')],
      status = 200\<rparr>"

subsection \<open>Rows to dictionaries\<close>

text \<open>
  \<^verbatim>\<open>employee_dict = dict(zip(columns, employee))
  for key, value in employee_dict.items():
      if isinstance(value, datetime):
          employee_dict[key] = value.isoformat()\<close>
  where \<open>datetime\<close> is the class \<open>datetime.datetime\<close>: a \<open>datetime.date\<close> is not an
  instance of it.
\<close>

definition convert_datetimes :: "(string \<times> pyval) list \<Rightarrow> (string \<times> pyval) list" where
  "convert_datetimes d =
     foldl (\<lambda>acc (key, val).
              case val of PDatetime t \<Rightarrow> dict_set key (PStr (isoformat t)) acc | _ \<Rightarrow> acc) d d"

definition employee_dict :: "pyval list \<Rightarrow> (string \<times> pyval) list" where
  "employee_dict employee = convert_datetimes (dict_of (zip columns employee))"

subsection \<open>\<open>add_employee\<close>\<close>

definition required_fields :: "string list" where
  "required_fields = [''first_name'', ''last_name'', ''email'']"

definition missing_field :: "string \<Rightarrow> response" where
  "missing_field field = error_response (''Missing required field: '' @ field) 400"

text \<open>
  \<^verbatim>\<open>for field in required_fields:
      if field not in data or not data[field]:
          return jsonify({'error': f'Missing required field: {field}'}), 400\<close>
  The result is the exception raised, the response returned, or \<open>None\<close> when the loop
  runs to its end.
\<close>

fun check_required :: "string list \<Rightarrow> pyval \<Rightarrow> pyexc + response option" where
  "check_required [] data = Inr None"
| "check_required (field # others) data =
     (case py_in field data of
        Inl e \<Rightarrow> Inl e
      | Inr present \<Rightarrow>
          if \<not> present then Inr (Some (missing_field field))
          else (case subscript data field of
                  Inl e \<Rightarrow> Inl e
                | Inr v \<Rightarrow>
                    if \<not> truthy v then Inr (Some (missing_field field))
                    else check_required others data))"

definition validate :: "pyval \<Rightarrow> pyexc + response option" where
  "validate data =
     (case check_required required_fields data of
        Inl e \<Rightarrow> Inl e
      | Inr (Some r) \<Rightarrow> Inr (Some r)
      | Inr None \<Rightarrow>
          (case subscript data ''email'' of
             Inl e \<Rightarrow> Inl e
           | Inr em \<Rightarrow>
               (case py_in ''@'' em of
                  Inl e \<Rightarrow> Inl e
                | Inr has_at \<Rightarrow>
                    if \<not> has_at then Inr (Some (error_response ''Invalid email format'' 400))
                    else Inr None)))"

definition insert_values :: "pyval \<Rightarrow> pyexc + statement" where
  "insert_values data =
     and_then (subscript data ''first_name'') (\<lambda>v1.
     and_then (subscript data ''last_name'') (\<lambda>v2.
     and_then (subscript data ''email'') (\<lambda>v3.
     and_then (py_get data ''phone'') (\<lambda>v4.
     and_then (py_get data ''department'') (\<lambda>v5.
     and_then (py_get data ''position'') (\<lambda>v6.
     and_then (py_get data ''salary'') (\<lambda>v7.
     and_then (py_get data ''hire_date'') (\<lambda>v8.
       Inr (InsertEmployee v1 v2 v3 v4 v5 v6 v7 v8)))))))))"

definition created :: "(string \<times> pyval) list \<Rightarrow> response" where
  "created d =
     \<lparr>payload = PDict [(''message'', PStr ''Employee added successfully''),
                       (''employee'', PDict d)],
      status = 201\<rparr>"

definition fetched_dict :: "pyval list option \<Rightarrow> pyexc + (string \<times> pyval) list" where
  "fetched_dict employee =
     (case employee of
        None \<Rightarrow> Inl (TypeError ''zip argument #2 must support iteration'')
      | Some t \<Rightarrow> Inr (employee_dict t))"

text \<open>
  The part of the \<open>try\<close> block that follows \<open>cursor = connection.cursor()\<close>: the
  \<open>INSERT\<close>, the commit, the \<open>SELECT\<close> of the new row by \<open>cursor.lastrowid\<close> and the
  response.
\<close>

definition add_employee_statements :: "server \<Rightarrow> pyval \<Rightarrow> frame \<Rightarrow> (pyexc + response) \<times> frame" where
  "add_employee_statements srv data =
     seq (lift (insert_values data)) (\<lambda>stmt.
     seq (execute srv stmt) (\<lambda>_.
     seq commit (\<lambda>_.
     seq get_lastrowid (\<lambda>employee_id.
     seq (execute srv (SelectEmployeeById employee_id)) (\<lambda>_.
     seq fetchone (\<lambda>employee.
     seq (lift (fetched_dict employee)) (\<lambda>d.
       lift (Inr (created d)))))))))"

definition insert_and_fetch :: "server \<Rightarrow> pyval \<Rightarrow> frame \<Rightarrow> (pyexc + response) \<times> frame" where
  "insert_and_fetch srv data =
     seq acquire (\<lambda>_.
     seq open_cursor (\<lambda>_.
       add_employee_statements srv data))"

definition add_employee_try :: "server \<Rightarrow> request_body \<Rightarrow> frame \<Rightarrow> (pyexc + response) \<times> frame" where
  "add_employee_try srv req =
     seq (lift (get_json req)) (\<lambda>data.
     seq (lift (validate data)) (\<lambda>invalid.
       case invalid of
         Some r \<Rightarrow> lift (Inr r)
       | None \<Rightarrow> insert_and_fetch srv data))"

fun add_employee_except :: "pyexc + response \<Rightarrow> response" where
  "add_employee_except (Inr r) = r"
| "add_employee_except (Inl (MySQLError n m)) =
     (if n = 1062 then error_response ''Email already exists'' 409
      else error_response ''Database error occurred'' 500)"
| "add_employee_except (Inl e) = error_response ''Internal server error'' 500"

definition add_employee :: "server \<Rightarrow> request_body \<Rightarrow> world \<Rightarrow> (pyexc + response) \<times> world" where
  "add_employee srv req w =
     (case add_employee_try srv req (new_frame w) of
        (r, fr) \<Rightarrow> finally_clause (add_employee_except r) fr)"

subsection \<open>\<open>get_employee\<close> and \<open>get_all_employees\<close>\<close>

fun get_except :: "pyexc + response \<Rightarrow> response" where
  "get_except (Inr r) = r"
| "get_except (Inl (MySQLError n m)) = error_response ''Database error occurred'' 500"
| "get_except (Inl e) = error_response ''Internal server error'' 500"

definition found :: "pyval list option \<Rightarrow> response" where
  "found employee =
     (case employee of
        None \<Rightarrow> error_response ''Employee not found'' 404
      | Some t \<Rightarrow>
          if t = [] then error_response ''Employee not found'' 404
          else \<lparr>payload = PDict [(''employee'', PDict (employee_dict t))], status = 200\<rparr>)"

definition get_employee_statements :: "server \<Rightarrow> int \<Rightarrow> frame \<Rightarrow> (pyexc + response) \<times> frame" where
  "get_employee_statements srv employee_id =
     seq (execute srv (SelectEmployeeById employee_id)) (\<lambda>_.
     seq fetchone (\<lambda>employee.
       lift (Inr (found employee))))"

definition get_employee_try :: "server \<Rightarrow> int \<Rightarrow> frame \<Rightarrow> (pyexc + response) \<times> frame" where
  "get_employee_try srv employee_id =
     seq acquire (\<lambda>_.
     seq open_cursor (\<lambda>_.
       get_employee_statements srv employee_id))"

definition get_employee :: "server \<Rightarrow> int \<Rightarrow> world \<Rightarrow> (pyexc + response) \<times> world" where
  "get_employee srv employee_id w =
     (case get_employee_try srv employee_id (new_frame w) of
        (r, fr) \<Rightarrow> finally_clause (get_except r) fr)"

definition listing :: "pyval list list \<Rightarrow> response" where
  "listing employees_fetched =
     (let employees_list = map employee_dict employees_fetched
      in \<lparr>payload = PDict [(''employees'', PList (map PDict employees_list)),
                            (''count'', PInt (int (length employees_list)))],
          status = 200\<rparr>)"

definition get_all_employees_statements :: "server \<Rightarrow> frame \<Rightarrow> (pyexc + response) \<times> frame" where
  "get_all_employees_statements srv =
     seq (execute srv SelectAllEmployees) (\<lambda>_.
     seq fetchall (\<lambda>employees_fetched.
       lift (Inr (listing employees_fetched))))"

definition get_all_employees_try :: "server \<Rightarrow> frame \<Rightarrow> (pyexc + response) \<times> frame" where
  "get_all_employees_try srv =
     seq acquire (\<lambda>_.
     seq open_cursor (\<lambda>_.
       get_all_employees_statements srv))"

definition get_all_employees :: "server \<Rightarrow> world \<Rightarrow> (pyexc + response) \<times> world" where
  "get_all_employees srv w =
     (case get_all_employees_try srv (new_frame w) of
        (r, fr) \<Rightarrow> finally_clause (get_except r) fr)"

subsection \<open>The pool at start\<close>

text \<open>
  \<^verbatim>\<open>try:
      connection_pool = mysql.connector.pooling.MySQLConnectionPool(**POOL_CONFIG)
  except mysql.connector.Error as err:
      connection_pool = None\<close>
  The argument is what the constructor raised, if it raised; a pool is built with
  \<open>pool_size\<close> idle connections. Another exception than a \<open>mysql.connector.Error\<close>
  ends the start of the module.
\<close>

definition pool_size :: nat where
  "pool_size = 5"

fun init_connection_pool :: "pyexc option \<Rightarrow> pyexc + nat option" where
  "init_connection_pool None = Inr (Some pool_size)"
| "init_connection_pool (Some (MySQLError n m)) = Inr None"
| "init_connection_pool (Some e) = Inl e"

subsection \<open>Routing\<close>

text \<open>
  The four \<open>@app.route\<close> decorators, and a sequence of requests served one after the
  other.
\<close>

datatype request =
    GET_health
  | POST_employees request_body
  | GET_employee int
  | GET_employees

fun route :: "server \<Rightarrow> request \<Rightarrow> world \<Rightarrow> (pyexc + response) \<times> world" where
  "route srv GET_health w = (Inr health_check, w)"
| "route srv (POST_employees body) w = add_employee srv body w"
| "route srv (GET_employee employee_id) w = get_employee srv employee_id w"
| "route srv GET_employees w = get_all_employees srv w"

fun serve :: "server \<Rightarrow> request list \<Rightarrow> world \<Rightarrow> world" where
  "serve srv [] w = w"
| "serve srv (req # reqs) w = serve srv reqs (snd (route srv req w))"

subsection \<open>Notions used in the properties\<close>

text \<open>What the loop over \<open>employee_dict.items()\<close> does to one value.\<close>

fun rendered :: "pyval \<Rightarrow> pyval" where
  "rendered (PDatetime t) = PStr (isoformat t)"
| "rendered v = v"

section \<open>A server and a world for the examples\<close>

text \<open>
  One instance of the server parameter, used where a property is evaluated at a
  concrete input: it stores a string that fits its column, an integer salary below
  \<open>10 ^ 8\<close> and a date written \<open>YYYY-MM-DD\<close>, and refuses every other value (a real
  server converts more than that); emails are compared as they are.
\<close>

definition digit_value :: "char \<Rightarrow> nat option" where
  "digit_value c =
     map_of [(CHR ''0'', 0), (CHR ''1'', 1), (CHR ''2'', 2), (CHR ''3'', 3), (CHR ''4'', 4),
             (CHR ''5'', 5), (CHR ''6'', 6), (CHR ''7'', 7), (CHR ''8'', 8), (CHR ''9'', 9)] c"

fun number :: "nat \<Rightarrow> string \<Rightarrow> nat option" where
  "number acc [] = Some acc"
| "number acc (c # cs) =
     (case digit_value c of None \<Rightarrow> None | Some d \<Rightarrow> number (10 * acc + d) cs)"

definition parse_date :: "string \<Rightarrow> (int \<times> string) + date" where
  "parse_date s =
     (if length s = 10 \<and> s ! 4 = CHR ''-'' \<and> s ! 7 = CHR ''-'' then
        (case (number 0 (take 4 s), number 0 (take 2 (drop 5 s)), number 0 (drop 8 s)) of
           (Some y, Some m, Some d) \<Rightarrow>
             if 1 \<le> m \<and> m \<le> 12 \<and> 1 \<le> d \<and> d \<le> 31
             then Inr \<lparr>year = y, month = m, day = d\<rparr>
             else Inl (1292, ''Incorrect date value'')
         | _ \<Rightarrow> Inl (1292, ''Incorrect date value''))
      else Inl (1292, ''Incorrect date value''))"

definition example_server :: server where
  "example_server =
     \<lparr>sql_varchar = (\<lambda>n v. case v of
          PStr s \<Rightarrow> if length s \<le> n then Inr s else Inl (1406, ''Data too long for column'')
        | _ \<Rightarrow> Inl (1366, ''Incorrect string value'')),
      sql_decimal = (\<lambda>v. case v of
          PInt i \<Rightarrow> if \<bar>i\<bar> < 100000000 then Inr (100 * i)
                    else Inl (1264, ''Out of range value for column'')
        | _ \<Rightarrow> Inl (1366, ''Incorrect decimal value'')),
      sql_date = (\<lambda>v. case v of
          PStr s \<Rightarrow> parse_date s
        | _ \<Rightarrow> Inl (1292, ''Incorrect date value'')),
      email_key = (\<lambda>e. e)\<rparr>"

definition noon :: datetime where
  "noon = \<lparr>year = 2024, month = 3, day = 5, hour = 12, minute = 0, second = 0\<rparr>"

definition empty_world :: world where
  "empty_world =
     \<lparr>connection_pool = Some pool_size, employees = [], auto_increment = 1,
      current_timestamp = noon, driver_script = [], statement_log = []\<rparr>"

definition ann_fields :: "(string \<times> pyval) list" where
  "ann_fields = [(''first_name'', PStr ''Ann''), (''last_name'', PStr ''Lee''),
                 (''email'', PStr ''ann@x.com'')]"

definition ann :: pyval where
  "ann = PDict ann_fields"

definition no_pool_world :: world where
  "no_pool_world = empty_world\<lparr>connection_pool := None\<rparr>"

text \<open>One round of the loop that converts the values of an \<open>employee_dict\<close>.\<close>

definition convert_step :: "(string \<times> pyval) list \<Rightarrow> string \<times> pyval \<Rightarrow> (string \<times> pyval) list" where
  "convert_step acc p = (case p of (key, val) \<Rightarrow>
      case val of PDatetime t \<Rightarrow> dict_set key (PStr (isoformat t)) acc | _ \<Rightarrow> acc)"

text \<open>
  For a body that is an object: \<open>submitted kvs key\<close> is the value \<open>data.get(key)\<close>,
  \<open>None\<close> for a key the body does not have; a field is \<open>lacking\<close> when the body does
  not have it or has it with a value that counts as false (\<open>None\<close>, \<open>False\<close>, zero,
  an empty string, list or object); \<open>insert_of kvs\<close> is the \<open>INSERT\<close> with the eight
  submitted values.
\<close>

definition submitted :: "(string \<times> pyval) list \<Rightarrow> string \<Rightarrow> pyval" where
  "submitted kvs key = (case map_of kvs key of None \<Rightarrow> PNone | Some v \<Rightarrow> v)"

definition lacking :: "(string \<times> pyval) list \<Rightarrow> string \<Rightarrow> bool" where
  "lacking kvs field = (case map_of kvs field of None \<Rightarrow> True | Some v \<Rightarrow> \<not> truthy v)"

definition insert_of :: "(string \<times> pyval) list \<Rightarrow> statement" where
  "insert_of kvs =
     InsertEmployee (submitted kvs ''first_name'') (submitted kvs ''last_name'')
       (submitted kvs ''email'') (submitted kvs ''phone'') (submitted kvs ''department'')
       (submitted kvs ''position'') (submitted kvs ''salary'') (submitted kvs ''hire_date'')"

definition stored_row :: "server \<Rightarrow> world \<Rightarrow> (string \<times> pyval) list \<Rightarrow> (int \<times> string) + employee_row" where
  "stored_row srv w kvs =
     new_row srv (auto_increment w) (current_timestamp w)
       (submitted kvs ''first_name'') (submitted kvs ''last_name'')
       (submitted kvs ''email'') (submitted kvs ''phone'') (submitted kvs ''department'')
       (submitted kvs ''position'') (submitted kvs ''salary'') (submitted kvs ''hire_date'')"

definition logged :: "statement \<Rightarrow> string \<times> pyval list" where
  "logged stmt = (sql_text stmt, sql_params stmt)"

text \<open>
  The frame once \<open>connection\<close> and \<open>cursor\<close> are assigned, and a way to speak
  about a step: \<open>ensures P step Q\<close> when a run from a frame with \<open>P\<close> ends in a frame
  with \<open>Q\<close>, whether the step raises or not.
\<close>

definition opened :: "connection \<Rightarrow> world \<Rightarrow> frame" where
  "opened c w = \<lparr>world = w, connection = Some c, cursor = Some \<lparr>lastrowid = 0, result_set = []\<rparr>\<rparr>"

definition ensures ::
  "(frame \<Rightarrow> bool) \<Rightarrow> (frame \<Rightarrow> (pyexc + 'a) \<times> frame) \<Rightarrow> (frame \<Rightarrow> bool) \<Rightarrow> bool" where
  "ensures P step Q \<longleftrightarrow> (\<forall>fr. P fr \<longrightarrow> Q (snd (step fr)))"

text \<open>
  The integrity of the table: ids are positive, below the counter and not repeated
  (\<open>AUTO_INCREMENT PRIMARY KEY\<close>), and no two rows have the same email key
  (\<open>UNIQUE\<close>).
\<close>

definition intact :: "server \<Rightarrow> int \<Rightarrow> employee_row list \<Rightarrow> bool" where
  "intact srv counter rows \<longleftrightarrow>
     0 < counter \<and> (\<forall>r \<in> set rows. 0 < row_id r \<and> row_id r < counter) \<and>
     distinct (map row_id rows) \<and> distinct (map (\<lambda>r. email_key srv (email r)) rows)"

definition consistent :: "server \<Rightarrow> world \<Rightarrow> bool" where
  "consistent srv w \<longleftrightarrow> intact srv (auto_increment w) (employees w)"

text \<open>A script none of whose faults loses the connection.\<close>

definition keeps_connection :: "fault option list \<Rightarrow> bool" where
  "keeps_connection script \<longleftrightarrow> (\<forall>f \<in> set script. case f of None \<Rightarrow> True | Some x \<Rightarrow> \<not> connection_lost x)"

text \<open>
  What holds of the frame all along the part of a \<open>try\<close> block that follows the
  assignment of \<open>cursor\<close>: both variables are bound (\<open>in_use\<close>); the pool has the same
  idle connections (\<open>pool_is\<close>); the connection is up, as long as no fault of the
  script loses it (\<open>alive\<close>); the table has the rows it had, and maybe more
  (\<open>grown\<close>); the rows the connection sees are intact (\<open>sound\<close>); the log of
  statements and the table are the given ones (\<open>recorded\<close>).
\<close>

definition in_use :: "frame \<Rightarrow> bool" where
  "in_use fr \<longleftrightarrow> connection fr \<noteq> None \<and> cursor fr \<noteq> None"

definition pool_is :: "nat option \<Rightarrow> frame \<Rightarrow> bool" where
  "pool_is p fr \<longleftrightarrow> in_use fr \<and> connection_pool (world fr) = p"

definition alive :: "frame \<Rightarrow> bool" where
  "alive fr \<longleftrightarrow>
     in_use fr \<and> keeps_connection (driver_script (world fr)) \<and>
     (\<forall>c. connection fr = Some c \<longrightarrow> connected c)"

definition grown :: "world \<Rightarrow> frame \<Rightarrow> bool" where
  "grown w0 fr \<longleftrightarrow> in_use fr \<and> (\<exists>more. employees (world fr) = employees w0 @ more)"

definition sound :: "server \<Rightarrow> frame \<Rightarrow> bool" where
  "sound srv fr \<longleftrightarrow>
     in_use fr \<and>
     (\<forall>c. connection fr = Some c \<longrightarrow>
        intact srv (auto_increment (world fr)) (employees (world fr) @ pending c))"

definition recorded :: "(string \<times> pyval list) list \<Rightarrow> employee_row list \<Rightarrow> frame \<Rightarrow> bool" where
  "recorded stmts rows fr \<longleftrightarrow>
     in_use fr \<and> statement_log (world fr) = stmts \<and> employees (world fr) = rows"

text \<open>The world after a call into the driver has taken its entry of the script.\<close>

definition popped :: "world \<Rightarrow> world" where
  "popped w = w\<lparr>driver_script := tl (driver_script w)\<rparr>"

text \<open>
  The shape the three handlers share once the connection is asked for: the statements
  \<open>k\<close> run on the opened frame, the \<open>except\<close> clauses \<open>ex\<close> turn the outcome into a
  response, and the \<open>finally\<close> clause ends the run.
\<close>

definition served ::
  "(frame \<Rightarrow> (pyexc + response) \<times> frame) \<Rightarrow> (pyexc + response \<Rightarrow> response) \<Rightarrow> world
     \<Rightarrow> (pyexc + response) \<times> world" where
  "served k ex w =
     (case get_db_connection w of
        (Inl e, w1) \<Rightarrow> (Inr (ex (Inl e)), w1)
      | (Inr c, w1) \<Rightarrow> (case k (opened c w1) of (r, fr) \<Rightarrow> finally_clause (ex r) fr))"

text \<open>The literals that \<open>app.py\<close> passes to \<open>cursor.execute\<close> as statement text.\<close>

definition query_literals :: "string list" where
  "query_literals =
     [''INSERT INTO employees (first_name, last_name, email, phone, department, position, salary, hire_date) VALUES (%s, %s, %s, %s, %s, %s, %s, %s)'',
      ''SELECT * FROM employees WHERE id = %s'',
      ''SELECT * FROM employees ORDER BY id'']"

text \<open>Worlds in which the second call into the driver fails, the connection staying up or not.\<close>

definition timeout_world :: world where
  "timeout_world =
     empty_world\<lparr>driver_script := [None, Some (Fault 1205 ''Lock wait timeout exceeded'' False)]\<rparr>"

definition lost_world :: world where
  "lost_world =
     empty_world\<lparr>driver_script :=
       [None, Some (Fault 2013 ''Lost connection to MySQL server during query'' True)]\<rparr>"

text \<open>The row of the employee Ann and the world once she is created in the empty table.\<close>

definition ann_row :: employee_row where
  "ann_row =
     \<lparr>row_id = 1, first_name = ''Ann'', last_name = ''Lee'', email = ''ann@x.com'',
      phone = None, department = None, position = None, salary = None, hire_date = None,
      created_at = noon, updated_at = noon\<rparr>"

definition ann_world :: world where
  "ann_world =
     empty_world\<lparr>employees := [ann_row], auto_increment := 2,
       statement_log :=
         [logged (insert_of ann_fields), logged (SelectEmployeeById 1)]\<rparr>"

text \<open>A body with a hire date, and a table that holds a row with one.\<close>

definition hired_fields :: "(string \<times> pyval) list" where
  "hired_fields = [(''first_name'', PStr ''Bob''), (''last_name'', PStr ''Ray''),
                   (''email'', PStr ''bob@x.com''), (''hire_date'', PStr ''2024-01-15'')]"

definition hired :: pyval where
  "hired = PDict hired_fields"

definition hired_row :: employee_row where
  "hired_row =
     \<lparr>row_id = 1, first_name = ''Bob'', last_name = ''Ray'', email = ''bob@x.com'',
      phone = None, department = None, position = None, salary = None,
      hire_date = Some \<lparr>year = 2024, month = 1, day = 15\<rparr>,
      created_at = noon, updated_at = noon\<rparr>"

definition hired_world :: world where
  "hired_world = empty_world\<lparr>employees := [hired_row], auto_increment := 2\<rparr>"

text \<open>A body whose phone number is longer than the 20 characters of its column.\<close>

definition long_phone_fields :: "(string \<times> pyval) list" where
  "long_phone_fields = [(''first_name'', PStr ''Ann''), (''last_name'', PStr ''Lee''),
                        (''email'', PStr ''ann@x.com''),
                        (''phone'', PStr ''+1 (555) 010-9999 ext. 12345'')]"

section \<open>Properties\<close>

subsection \<open>Steps that only compute\<close>

lemma lift_apply [simp]: "lift x fr = (x, fr)"
  by (simp add: lift_def)

lemma seq_lift_Inr [simp]: "seq (lift (Inr a)) k fr = k a fr"
  by (simp add: seq_def lift_def)

lemma seq_lift_Inl [simp]: "seq (lift (Inl e)) k fr = (Inl e, fr)"
  by (simp add: seq_def lift_def)

lemma finally_new_frame [simp]: "finally_clause r (new_frame w) = (Inr r, w)"
  by (simp add: finally_clause_def new_frame_def)

subsection \<open>A body that is not an object\<close>

lemma check_required_not_dict:
  assumes "\<forall>kvs. data \<noteq> PDict kvs"
  shows "check_required (f # fs) data =
           (case py_in f data of
              Inl e \<Rightarrow> Inl e
            | Inr present \<Rightarrow>
                if present
                then Inl (TypeError ''indices must be integers or value is not subscriptable'')
                else Inr (Some (missing_field f)))"
  using assms by (cases data) simp_all

lemma validate_not_dict:
  assumes "\<forall>kvs. data \<noteq> PDict kvs"
  shows "validate data =
           (case py_in ''first_name'' data of
              Inl e \<Rightarrow> Inl e
            | Inr present \<Rightarrow>
                if present
                then Inl (TypeError ''indices must be integers or value is not subscriptable'')
                else Inr (Some (missing_field ''first_name'')))"
  using check_required_not_dict [OF assms, of "''first_name''"]
  by (simp add: validate_def required_fields_def split: sum.splits)

lemma not_iterable_except [simp]:
  "add_employee_except (Inl not_iterable) = error_response ''Internal server error'' 500"
  by (simp add: not_iterable_def)

text \<open>
  C10, as the code has it. A create request without a JSON body is answered with 500
  and \<open>Internal server error\<close>. So is a body that is not an object whenever the test
  \<open>'first_name' not in data\<close> raises (\<open>None\<close>, a boolean, a number) or finds the
  name, the subscript \<open>data['first_name']\<close> raising then (a string that has
  \<open>first_name\<close> as a substring, a list that has it as an element). A string or a list
  that does not contain \<open>first_name\<close> is answered with 400 and
  \<open>Missing required field: first_name\<close>. In every case the world is left as it was:
  no connection is taken and no row is stored.
\<close>

theorem add_employee_not_an_object:
  "add_employee srv NoBody w = (Inr (error_response ''Internal server error'' 500), w) \<and>
   ((\<forall>kvs. data \<noteq> PDict kvs) \<longrightarrow>
      add_employee srv (Body data) w =
        (Inr (if py_in ''first_name'' data = Inr False
              then error_response ''Missing required field: first_name'' 400
              else error_response ''Internal server error'' 500), w))"
proof (intro conjI impI)
  show "add_employee srv NoBody w = (Inr (error_response ''Internal server error'' 500), w)"
    by (simp add: add_employee_def add_employee_try_def)
next
  assume nd: "\<forall>kvs. data \<noteq> PDict kvs"
  show "add_employee srv (Body data) w =
        (Inr (if py_in ''first_name'' data = Inr False
              then error_response ''Missing required field: first_name'' 400
              else error_response ''Internal server error'' 500), w)"
  proof (cases "py_in ''first_name'' data")
    case (Inl e)
    then have "e = not_iterable" by (cases data) auto
    with Inl show ?thesis
      by (simp add: add_employee_def add_employee_try_def validate_not_dict [OF nd])
  next
    case (Inr present)
    then show ?thesis
      by (cases present)
        (simp_all add: add_employee_def add_employee_try_def validate_not_dict [OF nd]
           missing_field_def)
  qed
qed

theorem add_employee_not_an_object_witness:
  "(\<forall>kvs. PInt 3 \<noteq> PDict kvs) \<and>
   add_employee example_server (Body (PInt 3)) empty_world =
     (Inr (error_response ''Internal server error'' 500), empty_world)"
  using add_employee_not_an_object [of example_server empty_world "PInt 3"] by simp

theorem add_employee_string_body_counterexample:
  "fst (add_employee example_server (Body (PStr ''hello'')) empty_world) =
     Inr (error_response ''Missing required field: first_name'' 400) \<and>
   fst (add_employee example_server (Body (PStr ''hello'')) empty_world) \<noteq>
     Inr (error_response ''Internal server error'' 500)"
  by (simp add: add_employee_def add_employee_try_def validate_def required_fields_def
      missing_field_def error_response_def)

subsection \<open>Evaluating the examples\<close>

lemma validate_ann: "validate ann = Inr None"
  by (simp add: validate_def required_fields_def ann_def ann_fields_def)

subsection \<open>Without a pool\<close>

lemma acquire_no_pool:
  "connection_pool (world fr) = None \<Longrightarrow>
     acquire fr = (Inl (PyException ''Database connection pool not available''), fr)"
  by (simp add: acquire_def get_db_connection_def)

lemma seq_acquire_no_pool:
  "connection_pool w = None \<Longrightarrow>
     seq acquire k (new_frame w) =
       (Inl (PyException ''Database connection pool not available''), new_frame w)"
  by (simp add: seq_def acquire_no_pool new_frame_def)

lemma get_employee_no_pool:
  "connection_pool w = None \<Longrightarrow>
     get_employee srv i w = (Inr (error_response ''Internal server error'' 500), w)"
  by (simp add: get_employee_def get_employee_try_def seq_acquire_no_pool)

lemma get_all_employees_no_pool:
  "connection_pool w = None \<Longrightarrow>
     get_all_employees srv w = (Inr (error_response ''Internal server error'' 500), w)"
  by (simp add: get_all_employees_def get_all_employees_try_def seq_acquire_no_pool)

lemma add_employee_try_no_pool:
  "connection_pool w = None \<Longrightarrow>
     add_employee_try srv req (new_frame w) =
       (case get_json req of
          Inl e \<Rightarrow> (Inl e, new_frame w)
        | Inr data \<Rightarrow>
            (case validate data of
               Inl e \<Rightarrow> (Inl e, new_frame w)
             | Inr (Some r) \<Rightarrow> (Inr r, new_frame w)
             | Inr None \<Rightarrow>
                 (Inl (PyException ''Database connection pool not available''), new_frame w)))"
  by (simp add: add_employee_try_def insert_and_fetch_def seq_acquire_no_pool
      split: sum.splits option.splits)

lemma add_employee_no_pool_world:
  "connection_pool w = None \<Longrightarrow> snd (add_employee srv req w) = w"
  by (simp add: add_employee_def add_employee_try_no_pool split: sum.splits option.splits)

lemma route_no_pool: "connection_pool w = None \<Longrightarrow> snd (route srv req w) = w"
  by (cases req)
    (simp_all add: get_employee_no_pool get_all_employees_no_pool add_employee_no_pool_world)

lemma serve_no_pool: "connection_pool w = None \<Longrightarrow> serve srv reqs w = w"
  by (induction reqs) (simp_all add: route_no_pool)

subsection \<open>Rows as dictionaries\<close>

lemma dict_set_new: "k \<notin> fst ` set d \<Longrightarrow> dict_set k v d = d @ [(k, v)]"
  by (induction d) auto

lemma foldl_dict_set:
  "distinct (map fst (acc @ pairs)) \<Longrightarrow>
     foldl (\<lambda>d (k, v). dict_set k v d) acc pairs = acc @ pairs"
proof (induction pairs arbitrary: acc)
  case Nil
  then show ?case by simp
next
  case (Cons p pairs)
  obtain k v where p: "p = (k, v)" by (cases p)
  from Cons.prems have "k \<notin> fst ` set acc" by (auto simp: p)
  then have "dict_set k v acc = acc @ [(k, v)]" by (rule dict_set_new)
  moreover have "distinct (map fst ((acc @ [(k, v)]) @ pairs))"
    using Cons.prems by (simp add: p)
  ultimately show ?case
    using Cons.IH [of "acc @ [(k, v)]"] by (simp add: p)
qed

lemma dict_of_distinct: "distinct (map fst pairs) \<Longrightarrow> dict_of pairs = pairs"
  using foldl_dict_set [of "[]" pairs] by (simp add: dict_of_def)

lemma dict_set_present:
  "k \<in> fst ` set d \<Longrightarrow>
     dict_set k v d = map (\<lambda>p. if fst p = k then (k, v) else p) d \<or> \<not> distinct (map fst d)"
proof (induction d)
  case Nil
  then show ?case by simp
next
  case (Cons p d)
  show ?case
  proof (cases "fst p = k")
    case True
    show ?thesis
    proof (cases "k \<in> fst ` set d")
      case True
      with \<open>fst p = k\<close> show ?thesis by auto
    next
      case False
      then have "map (\<lambda>p. if fst p = k then (k, v) else p) d = d"
        by (induction d) auto
      with True show ?thesis by (cases p) simp
    qed
  next
    case False
    with Cons show ?thesis by (cases p) auto
  qed
qed

lemma convert_step_eq:
  assumes "distinct (map fst acc)" and "(k, v) \<in> set acc"
  shows "convert_step acc (k, v) = map (\<lambda>p. if fst p = k then (k, rendered v) else p) acc"
proof (cases "\<exists>t. v = PDatetime t")
  case True
  then obtain t where v: "v = PDatetime t" by blast
  from assms(2) have "k \<in> fst ` set acc" by force
  from dict_set_present [OF this, of "PStr (isoformat t)"] assms(1)
  show ?thesis by (simp add: convert_step_def v)
next
  case False
  then have same: "rendered v = v" and step: "convert_step acc (k, v) = acc"
    by (cases v; simp add: convert_step_def)+
  have "map (\<lambda>p. if fst p = k then (k, rendered v) else p) acc = acc"
  proof (rule map_idI)
    fix p assume p: "p \<in> set acc"
    show "(if fst p = k then (k, rendered v) else p) = p"
    proof (cases "fst p = k")
      case True
      with p have "(k, snd p) \<in> set acc" by (metis prod.collapse)
      with assms have "snd p = v" by (metis eq_key_imp_eq_value)
      with True same show ?thesis by (cases p) simp
    next
      case False
      then show ?thesis by simp
    qed
  qed
  then show ?thesis by (simp only: step)
qed

lemma convert_fold:
  "distinct (map fst acc) \<Longrightarrow> distinct (map fst todo) \<Longrightarrow> set todo \<subseteq> set acc \<Longrightarrow>
     foldl convert_step acc todo =
       map (\<lambda>p. if fst p \<in> fst ` set todo then (fst p, rendered (snd p)) else p) acc"
proof (induction todo arbitrary: acc)
  case Nil
  then show ?case by simp
next
  case (Cons q todo)
  obtain k v where q: "q = (k, v)" by (cases q)
  let ?f = "\<lambda>p. if fst p = k then (k, rendered v) else p"
  have in_acc: "(k, v) \<in> set acc" using Cons.prems(3) by (simp add: q)
  have k_todo: "k \<notin> fst ` set todo" using Cons.prems(2) by (simp add: q)
  have step: "convert_step acc q = map ?f acc"
    unfolding q using Cons.prems(1) in_acc by (rule convert_step_eq)
  have keys: "map fst (map ?f acc) = map fst acc"
    by (induction acc) auto
  have sub: "set todo \<subseteq> set (map ?f acc)"
  proof
    fix p assume p: "p \<in> set todo"
    with k_todo have "fst p \<noteq> k" by force
    moreover from p Cons.prems(3) have "p \<in> set acc" by auto
    ultimately have "?f p = p" and "p \<in> set acc" by simp_all
    then show "p \<in> set (map ?f acc)" by force
  qed
  have "foldl convert_step (map ?f acc) todo =
      map (\<lambda>p. if fst p \<in> fst ` set todo then (fst p, rendered (snd p)) else p) (map ?f acc)"
  proof (rule Cons.IH)
    show "distinct (map fst (map ?f acc))" using Cons.prems(1) by (simp only: keys)
    show "distinct (map fst todo)" using Cons.prems(2) by simp
    show "set todo \<subseteq> set (map ?f acc)" by (rule sub)
  qed
  also have "\<dots> = map (\<lambda>p. if fst p \<in> fst ` set (q # todo) then (fst p, rendered (snd p)) else p) acc"
  proof (simp only: map_map, rule map_cong [OF refl])
    fix p assume p: "p \<in> set acc"
    show "((\<lambda>p. if fst p \<in> fst ` set todo then (fst p, rendered (snd p)) else p) \<circ> ?f) p =
          (if fst p \<in> fst ` set (q # todo) then (fst p, rendered (snd p)) else p)"
    proof (cases "fst p = k")
      case True
      with p have "(k, snd p) \<in> set acc" by (metis prod.collapse)
      with Cons.prems(1) have "snd p = v" using in_acc by (rule eq_key_imp_eq_value)
      with True k_todo show ?thesis by (simp add: q)
    next
      case False
      then show ?thesis by (simp add: q)
    qed
  qed
  finally show ?case by (simp add: step)
qed

lemma convert_datetimes_distinct:
  assumes "distinct (map fst d)"
  shows "convert_datetimes d = map (\<lambda>(k, v). (k, rendered v)) d"
proof -
  have "convert_datetimes d = foldl convert_step d d"
    by (simp add: convert_datetimes_def convert_step_def [abs_def])
  also have "\<dots> = map (\<lambda>p. if fst p \<in> fst ` set d then (fst p, rendered (snd p)) else p) d"
    using assms by (intro convert_fold) simp_all
  also have "\<dots> = map (\<lambda>(k, v). (k, rendered v)) d"
    by (rule map_cong [OF refl]) force
  finally show ?thesis .
qed

lemma employee_dict_eq: "employee_dict t = map (\<lambda>(k, v). (k, rendered v)) (zip columns t)"
proof -
  have "distinct columns" by (simp add: columns_def)
  then have "distinct (map fst (zip columns t))"
    by (simp add: map_fst_zip_take)
  then show ?thesis
    by (simp add: employee_dict_def dict_of_distinct convert_datetimes_distinct)
qed

lemma rendered_nullable [simp]:
  "rendered (nullable PStr s) = nullable PStr s"
  "rendered (nullable PDecimal n) = nullable PDecimal n"
  "rendered (nullable PDate d) = nullable PDate d"
  by (simp_all add: nullable_def split: option.splits)

lemma employee_dict_row:
  "employee_dict (row_tuple r) =
     [(''id'', PInt (row_id r)), (''first_name'', PStr (first_name r)),
      (''last_name'', PStr (last_name r)), (''email'', PStr (email r)),
      (''phone'', nullable PStr (phone r)), (''department'', nullable PStr (department r)),
      (''position'', nullable PStr (position r)), (''salary'', nullable PDecimal (salary r)),
      (''hire_date'', nullable PDate (hire_date r)),
      (''created_at'', PStr (isoformat (created_at r))),
      (''updated_at'', PStr (isoformat (updated_at r)))]"
  by (simp add: employee_dict_eq columns_def row_tuple_def)

subsection \<open>Validation of an object\<close>

lemma lacking_iff: "lacking kvs f \<longleftrightarrow> (f \<notin> fst ` set kvs \<or> \<not> truthy (submitted kvs f))"
proof (cases "map_of kvs f")
  case None
  then have "f \<notin> fst ` set kvs" by (simp add: map_of_eq_None_iff)
  with None show ?thesis by (simp add: lacking_def)
next
  case (Some v)
  then have "f \<in> fst ` set kvs" by (metis map_of_eq_None_iff option.distinct(1))
  with Some show ?thesis by (simp add: lacking_def submitted_def)
qed

lemma subscript_dict:
  "f \<in> fst ` set kvs \<Longrightarrow> subscript (PDict kvs) f = Inr (submitted kvs f)"
  by (auto simp: submitted_def map_of_eq_None_iff split: option.splits)

lemma py_get_dict: "py_get (PDict kvs) f = Inr (submitted kvs f)"
  by (simp add: submitted_def split: option.splits)

lemma check_required_dict:
  "check_required fs (PDict kvs) =
     (case find (lacking kvs) fs of
        None \<Rightarrow> Inr None
      | Some f \<Rightarrow> Inr (Some (missing_field f)))"
proof (induction fs)
  case Nil
  show ?case by simp
next
  case (Cons f fs)
  show ?case
  proof (cases "f \<in> fst ` set kvs")
    case True
    then have "lacking kvs f \<longleftrightarrow> \<not> truthy (submitted kvs f)"
      by (simp add: lacking_iff)
    with True show ?thesis
      by (simp add: Cons.IH subscript_dict del: subscript.simps)
  next
    case False
    then have "lacking kvs f" by (simp add: lacking_iff)
    with False show ?thesis by simp
  qed
qed

lemma validate_dict:
  "validate (PDict kvs) =
     (case find (lacking kvs) required_fields of
        Some f \<Rightarrow> Inr (Some (missing_field f))
      | None \<Rightarrow>
          (case py_in ''@'' (submitted kvs ''email'') of
             Inl e \<Rightarrow> Inl e
           | Inr has_at \<Rightarrow>
               if has_at then Inr None
               else Inr (Some (error_response ''Invalid email format'' 400))))"
proof (cases "find (lacking kvs) required_fields")
  case None
  then have "\<not> lacking kvs ''email''"
    by (simp add: required_fields_def split: if_splits)
  then have "''email'' \<in> fst ` set kvs" by (simp add: lacking_iff)
  then have "subscript (PDict kvs) ''email'' = Inr (submitted kvs ''email'')"
    by (rule subscript_dict)
  with None show ?thesis
    by (simp add: validate_def check_required_dict split: sum.splits)
next
  case (Some f)
  then show ?thesis by (simp add: validate_def check_required_dict)
qed

lemma validate_passed:
  assumes "validate (PDict kvs) = Inr None"
  shows "\<forall>f \<in> set required_fields. \<not> lacking kvs f"
    and "py_in ''@'' (submitted kvs ''email'') = Inr True"
  using assms
  by (auto simp: validate_dict find_None_iff split: option.splits sum.splits if_splits)

lemma insert_values_passed:
  assumes "validate (PDict kvs) = Inr None"
  shows "insert_values (PDict kvs) = Inr (insert_of kvs)"
proof -
  from validate_passed(1) [OF assms]
  have "''first_name'' \<in> fst ` set kvs" "''last_name'' \<in> fst ` set kvs" "''email'' \<in> fst ` set kvs"
    by (simp_all add: required_fields_def lacking_iff)
  then show ?thesis
    by (simp add: insert_values_def insert_of_def and_then_def py_get_dict subscript_dict
        del: subscript.simps py_get.simps)
qed

subsection \<open>Steps in sequence\<close>

lemma ensures_seq:
  assumes "ensures P step Q" and "\<And>a. ensures Q (rest a) R" and "\<And>fr. Q fr \<Longrightarrow> R fr"
  shows "ensures P (seq step rest) R"
  unfolding ensures_def
proof (intro allI impI)
  fix fr assume "P fr"
  with assms(1) have q: "Q (snd (step fr))" by (simp add: ensures_def)
  show "R (snd (seq step rest fr))"
  proof (cases "step fr")
    case (Pair x fr1)
    with q have q1: "Q fr1" by simp
    show ?thesis
    proof (cases x)
      case (Inl e)
      with Pair q1 assms(3) show ?thesis by (simp add: seq_def)
    next
      case (Inr a)
      with Pair q1 assms(2) [of a] show ?thesis by (simp add: seq_def ensures_def)
    qed
  qed
qed

lemma keeps_seq:
  assumes "ensures P step P" and "\<And>a. ensures P (rest a) P"
  shows "ensures P (seq step rest) P"
  using assms(1) assms(2) by (rule ensures_seq) 

lemma ensures_lift: "ensures P (lift x) P"
  by (simp add: ensures_def)

lemma get_db_connection_Inr:
  assumes "get_db_connection w = (Inr c, w1)"
  shows "c = \<lparr>connected = True, pending = []\<rparr> \<and>
         (\<exists>idle. connection_pool w = Some (Suc idle) \<and>
            w1 = (snd (next_outcome w))\<lparr>connection_pool := Some idle\<rparr>) \<and>
         fst (next_outcome w) = None"
  using assms
  by (auto simp: get_db_connection_def pool_get_connection_def
      split: option.splits prod.splits if_splits) (cases "the (connection_pool w)", auto)

lemma get_db_connection_Inl:
  assumes "get_db_connection w = (Inl e, w1)"
  shows "w1 = w \<or> w1 = snd (next_outcome w)"
  using assms
  by (auto simp: get_db_connection_def pool_get_connection_def
      split: option.splits prod.splits if_splits)

lemma acquire_open:
  "seq acquire (\<lambda>_. seq open_cursor k) fr =
     (case get_db_connection (world fr) of
        (Inl e, w1) \<Rightarrow> (Inl e, fr\<lparr>world := w1\<rparr>)
      | (Inr c, w1) \<Rightarrow>
          k () (fr\<lparr>world := w1, connection := Some c,
                   cursor := Some \<lparr>lastrowid = 0, result_set = []\<rparr>\<rparr>))"
proof (cases "get_db_connection (world fr)")
  case (Pair x w1)
  show ?thesis
  proof (cases x)
    case (Inl e)
    with Pair show ?thesis by (simp add: seq_def acquire_def)
  next
    case (Inr c)
    with Pair have "connected c" using get_db_connection_Inr by fastforce
    with Pair Inr show ?thesis by (simp add: seq_def acquire_def open_cursor_def)
  qed
qed

lemma try_finally_open:
  "(case seq acquire (\<lambda>_. seq open_cursor k) (new_frame w) of
      (r, fr) \<Rightarrow> finally_clause (ex r) fr) =
   (case get_db_connection w of
      (Inl e, w1) \<Rightarrow> (Inr (ex (Inl e)), w1)
    | (Inr c, w1) \<Rightarrow> (case k () (opened c w1) of (r, fr) \<Rightarrow> finally_clause (ex r) fr))"
  by (simp add: acquire_open new_frame_def opened_def finally_clause_def
      split: prod.splits sum.splits)

subsection \<open>What every call on the connection and the cursor keeps\<close>

lemma and_then_Inr: "and_then x f = Inr y \<longleftrightarrow> (\<exists>a. x = Inr a \<and> f a = Inr y)"
  by (cases x) (simp_all add: and_then_def)

lemma new_row_fields:
  assumes "new_row srv i now v1 v2 v3 v4 v5 v6 v7 v8 = Inr r"
  shows "row_id r = i \<and> created_at r = now \<and> updated_at r = now \<and>
         not_null (sql_varchar srv 100) v1 = Inr (first_name r) \<and>
         not_null (sql_varchar srv 100) v2 = Inr (last_name r) \<and>
         not_null (sql_varchar srv 255) v3 = Inr (email r) \<and>
         or_null (sql_varchar srv 20) v4 = Inr (phone r) \<and>
         or_null (sql_varchar srv 100) v5 = Inr (department r) \<and>
         or_null (sql_varchar srv 100) v6 = Inr (position r) \<and>
         or_null (sql_decimal srv) v7 = Inr (salary r) \<and>
         or_null (sql_date srv) v8 = Inr (hire_date r)"
  using assms unfolding new_row_def and_then_Inr by auto

lemmas op_defs = execute_def commit_def fetchone_def fetchall_def get_lastrowid_def
  next_outcome_def raised_def fails_def

lemma run_statement_in_use: "in_use (snd (run_statement srv stmt c cur w))"
  by (cases stmt) (auto simp: in_use_def run_insert_def split: sum.splits prod.splits)

lemma run_statement_pool:
  "connection_pool (world (snd (run_statement srv stmt c cur w))) = connection_pool w"
  by (cases stmt) (auto simp: run_insert_def split: sum.splits prod.splits)

lemma run_statement_script:
  "driver_script (world (snd (run_statement srv stmt c cur w))) = driver_script w"
  by (cases stmt) (auto simp: run_insert_def split: sum.splits prod.splits)

lemma run_statement_log:
  "statement_log (world (snd (run_statement srv stmt c cur w))) = statement_log w"
  by (cases stmt) (auto simp: run_insert_def split: sum.splits prod.splits)

lemma run_statement_rows:
  "employees (world (snd (run_statement srv stmt c cur w))) = employees w"
  by (cases stmt) (auto simp: run_insert_def split: sum.splits prod.splits)

lemma run_statement_connected:
  "connection (snd (run_statement srv stmt c cur w)) = Some c' \<Longrightarrow> connected c' = connected c"
  by (cases stmt) (auto simp: run_insert_def split: sum.splits prod.splits if_splits)

lemma in_use_ops:
  "ensures in_use (execute srv stmt) in_use"
  "ensures in_use commit in_use"
  "ensures in_use fetchone in_use"
  "ensures in_use fetchall in_use"
  "ensures in_use get_lastrowid in_use"
  using run_statement_in_use
  by (auto simp: ensures_def in_use_def op_defs split: option.splits list.splits prod.splits)

lemma pool_is_ops:
  "ensures (pool_is p) (execute srv stmt) (pool_is p)"
  "ensures (pool_is p) commit (pool_is p)"
  "ensures (pool_is p) fetchone (pool_is p)"
  "ensures (pool_is p) fetchall (pool_is p)"
  "ensures (pool_is p) get_lastrowid (pool_is p)"
  using run_statement_in_use run_statement_pool
  by (auto simp: ensures_def pool_is_def in_use_def op_defs split: option.splits list.splits prod.splits)


lemma keeps_connection_tl: "keeps_connection (f # fs) \<Longrightarrow> keeps_connection fs"
  by (simp add: keeps_connection_def)

lemma keeps_connection_hd: "keeps_connection (Some f # fs) \<Longrightarrow> \<not> connection_lost f"
  by (simp add: keeps_connection_def)

lemma alive_ops:
  "ensures alive (execute srv stmt) alive"
  "ensures alive commit alive"
  "ensures alive fetchone alive"
  "ensures alive fetchall alive"
  "ensures alive get_lastrowid alive"
  using run_statement_in_use run_statement_script run_statement_connected
  by (auto simp: ensures_def alive_def in_use_def op_defs
      dest: keeps_connection_tl keeps_connection_hd
      split: option.splits list.splits prod.splits)

lemma grown_ops:
  "ensures (grown w0) (execute srv stmt) (grown w0)"
  "ensures (grown w0) commit (grown w0)"
  "ensures (grown w0) fetchone (grown w0)"
  "ensures (grown w0) fetchall (grown w0)"
  "ensures (grown w0) get_lastrowid (grown w0)"
  using run_statement_in_use run_statement_rows
  by (auto simp: ensures_def grown_def in_use_def op_defs
      split: option.splits list.splits prod.splits)

lemma intact_next: "intact srv n rows \<Longrightarrow> intact srv (n + 1) rows"
  by (auto simp: intact_def)

lemma intact_insert:
  assumes "intact srv n rows" and "row_id r = n"
    and "email_key srv (email r) \<notin> email_key srv ` email ` set rows"
  shows "intact srv (n + 1) (rows @ [r])"
  using assms by (auto simp: intact_def)

lemma run_insert_sound:
  assumes "intact srv (auto_increment w) (employees w @ pending c)"
    and "run_insert srv v1 v2 v3 v4 v5 v6 v7 v8 c cur w = (x, fr)"
  shows "sound srv fr"
proof (cases "new_row srv (auto_increment w) (current_timestamp w) v1 v2 v3 v4 v5 v6 v7 v8")
  case (Inl e)
  with assms show ?thesis
    by (cases e) (auto simp: run_insert_def sound_def in_use_def)
next
  case (Inr r)
  then have rid: "row_id r = auto_increment w" using new_row_fields by blast
  show ?thesis
  proof (cases "email_key srv (email r) \<in> email_key srv ` email ` set (employees w @ pending c)")
    case True
    with Inr assms intact_next [OF assms(1)] show ?thesis
      by (auto simp: run_insert_def sound_def in_use_def)
  next
    case False
    from intact_insert [OF assms(1) rid False] Inr False assms(2) show ?thesis
      by (auto simp: run_insert_def sound_def in_use_def)
  qed
qed

lemma run_statement_sound:
  assumes "intact srv (auto_increment w) (employees w @ pending c)"
  shows "sound srv (snd (run_statement srv stmt c cur w))"
proof (cases stmt)
  case (InsertEmployee v1 v2 v3 v4 v5 v6 v7 v8)
  then show ?thesis
    using run_insert_sound [OF assms, of v1 v2 v3 v4 v5 v6 v7 v8 cur]
    by (cases "run_insert srv v1 v2 v3 v4 v5 v6 v7 v8 c cur w") simp
next
  case (SelectEmployeeById i)
  with assms show ?thesis by (simp add: sound_def in_use_def)
next
  case SelectAllEmployees
  with assms show ?thesis by (simp add: sound_def in_use_def)
qed

lemma sound_execute: "ensures (sound srv) (execute srv stmt) (sound srv)"
  unfolding ensures_def
proof (intro allI impI)
  fix fr assume s: "sound srv fr"
  then obtain c cur where c: "connection fr = Some c" and cur: "cursor fr = Some cur"
    by (auto simp: sound_def in_use_def)
  let ?w = "(world fr)\<lparr>statement_log := statement_log (world fr) @ [(sql_text stmt, sql_params stmt)]\<rparr>"
  show "sound srv (snd (execute srv stmt fr))"
  proof (cases "driver_script (world fr)")
    case Nil
    with s c cur run_statement_sound [of srv ?w c stmt cur] show ?thesis
      by (simp add: execute_def next_outcome_def sound_def)
  next
    case (Cons f fs)
    show ?thesis
    proof (cases f)
      case None
      with Cons s c cur
        run_statement_sound [of srv "?w\<lparr>driver_script := fs\<rparr>" c stmt cur]
      show ?thesis
        by (simp add: execute_def next_outcome_def sound_def)
    next
      case (Some x)
      with Cons s c cur show ?thesis
        by (simp add: execute_def next_outcome_def sound_def in_use_def fails_def)
    qed
  qed
qed

lemma sound_ops:
  "ensures (sound srv) commit (sound srv)"
  "ensures (sound srv) fetchone (sound srv)"
  "ensures (sound srv) fetchall (sound srv)"
  "ensures (sound srv) get_lastrowid (sound srv)"
  by (auto simp: ensures_def sound_def in_use_def op_defs
      split: option.splits list.splits prod.splits)


subsection \<open>Runs without faults\<close>

lemma next_outcome_quiet: "driver_script w = [] \<Longrightarrow> next_outcome w = (None, w)"
  by (simp add: next_outcome_def)

lemma get_db_connection_quiet:
  "connection_pool w = Some (Suc idle) \<Longrightarrow> driver_script w = [] \<Longrightarrow>
     get_db_connection w =
       (Inr \<lparr>connected = True, pending = []\<rparr>, w\<lparr>connection_pool := Some idle\<rparr>)"
  by (simp add: get_db_connection_def pool_get_connection_def next_outcome_quiet)

lemma get_employee_quiet:
  assumes "connection_pool w = Some (Suc idle)" and "driver_script w = []"
  shows "get_employee srv i w =
     (Inr (found (case filter (\<lambda>r. row_id r = i) (employees w) of
                    [] \<Rightarrow> None | r # rs \<Rightarrow> Some (row_tuple r))),
      w\<lparr>statement_log := statement_log w @ [(sql_text (SelectEmployeeById i), [PInt i])]\<rparr>)"
  using assms
  by (simp add: get_employee_def get_employee_try_def get_employee_statements_def seq_def acquire_def open_cursor_def
      execute_def fetchone_def new_frame_def finally_clause_def close_connection_def
      get_db_connection_quiet next_outcome_quiet split: list.splits)

lemma get_all_employees_quiet:
  assumes "connection_pool w = Some (Suc idle)" and "driver_script w = []"
  shows "get_all_employees srv w =
     (Inr (listing (map row_tuple (sort_key row_id (employees w)))),
      w\<lparr>statement_log := statement_log w @ [(sql_text SelectAllEmployees, [])]\<rparr>)"
  using assms
  by (simp add: get_all_employees_def get_all_employees_try_def get_all_employees_statements_def seq_def acquire_def open_cursor_def
      execute_def fetchall_def new_frame_def finally_clause_def close_connection_def
      get_db_connection_quiet next_outcome_quiet)

lemma add_employee_quiet_created:
  assumes valid: "validate (PDict kvs) = Inr None"
    and pool: "connection_pool w = Some (Suc idle)"
    and quiet: "driver_script w = []"
    and ids: "\<forall>r' \<in> set (employees w). row_id r' < auto_increment w"
    and stored: "stored_row srv w kvs = Inr r"
    and fresh: "email_key srv (email r) \<notin> email_key srv ` email ` set (employees w)"
  shows "add_employee srv (Body (PDict kvs)) w =
     (Inr (created (employee_dict (row_tuple r))),
      w\<lparr>employees := employees w @ [r],
        auto_increment := auto_increment w + 1,
        statement_log := statement_log w @
          [logged (insert_of kvs), logged (SelectEmployeeById (row_id r))]\<rparr>)"
proof -
  from stored have rid: "row_id r = auto_increment w"
    by (auto simp: stored_row_def dest: new_row_fields)
  from ids have sel: "filter (\<lambda>r'. row_id r' = auto_increment w) (employees w) = []"
    by (auto simp: filter_empty_conv)
  from stored have nr: "new_row srv (auto_increment w) (current_timestamp w)
       (submitted kvs ''first_name'') (submitted kvs ''last_name'')
       (submitted kvs ''email'') (submitted kvs ''phone'') (submitted kvs ''department'')
       (submitted kvs ''position'') (submitted kvs ''salary'') (submitted kvs ''hire_date'') = Inr r"
    by (simp add: stored_row_def)
  show ?thesis
    using pool quiet fresh rid sel
    by (simp add: add_employee_def add_employee_try_def valid insert_and_fetch_def add_employee_statements_def
        insert_values_passed [OF valid] insert_of_def nr logged_def
        seq_def acquire_def open_cursor_def execute_def commit_def fetchone_def get_lastrowid_def
        run_insert_def fetched_dict_def
        new_frame_def finally_clause_def close_connection_def
        get_db_connection_quiet next_outcome_quiet)
qed

subsection \<open>The three handlers as one shape\<close>

lemma next_outcome_fields [simp]:
  "connection_pool (snd (next_outcome w)) = connection_pool w"
  "employees (snd (next_outcome w)) = employees w"
  "auto_increment (snd (next_outcome w)) = auto_increment w"
  "current_timestamp (snd (next_outcome w)) = current_timestamp w"
  "statement_log (snd (next_outcome w)) = statement_log w"
  by (simp_all add: next_outcome_def split: list.splits)

lemma next_outcome_keeps_connection:
  "keeps_connection (driver_script w) \<Longrightarrow> keeps_connection (driver_script (snd (next_outcome w)))"
  by (auto simp: next_outcome_def keeps_connection_def split: list.splits)

lemma statements_keep:
  "ensures in_use (add_employee_statements srv data) in_use"
  "ensures (pool_is p) (add_employee_statements srv data) (pool_is p)"
  "ensures alive (add_employee_statements srv data) alive"
  "ensures (grown w0) (add_employee_statements srv data) (grown w0)"
  "ensures (sound srv) (add_employee_statements srv data) (sound srv)"
  "ensures in_use (get_employee_statements srv i) in_use"
  "ensures (pool_is p) (get_employee_statements srv i) (pool_is p)"
  "ensures alive (get_employee_statements srv i) alive"
  "ensures (grown w0) (get_employee_statements srv i) (grown w0)"
  "ensures (sound srv) (get_employee_statements srv i) (sound srv)"
  "ensures in_use (get_all_employees_statements srv) in_use"
  "ensures (pool_is p) (get_all_employees_statements srv) (pool_is p)"
  "ensures alive (get_all_employees_statements srv) alive"
  "ensures (grown w0) (get_all_employees_statements srv) (grown w0)"
  "ensures (sound srv) (get_all_employees_statements srv) (sound srv)"
  unfolding add_employee_statements_def get_employee_statements_def
    get_all_employees_statements_def
  by (intro keeps_seq ensures_lift in_use_ops pool_is_ops alive_ops grown_ops sound_execute
      sound_ops)+


lemma run_open:
  "(case seq acquire (\<lambda>_. seq open_cursor (\<lambda>_. k)) (new_frame w) of
      (r, fr) \<Rightarrow> finally_clause (ex r) fr) = served k ex w"
  using try_finally_open [where k = "\<lambda>_. k"] by (simp add: served_def)

lemma get_employee_served:
  "get_employee srv i w = served (get_employee_statements srv i) get_except w"
  by (simp add: get_employee_def get_employee_try_def run_open)

lemma get_all_employees_served:
  "get_all_employees srv w = served (get_all_employees_statements srv) get_except w"
  by (simp add: get_all_employees_def get_all_employees_try_def run_open)

lemma finally_in_use: "in_use fr \<Longrightarrow> fst (finally_clause resp fr) = Inr resp"
  by (auto simp: finally_clause_def in_use_def split: option.splits)

lemma finally_world:
  "snd (finally_clause resp fr) = world fr \<or>
   snd (finally_clause resp fr) = close_connection (world fr)"
  by (auto simp: finally_clause_def split: option.splits)

lemma close_connection_fields [simp]:
  "employees (close_connection w) = employees w"
  "auto_increment (close_connection w) = auto_increment w"
  "statement_log (close_connection w) = statement_log w"
  "driver_script (close_connection w) = driver_script w"
  by (simp_all add: close_connection_def)

lemma get_db_connection_fields:
  assumes "get_db_connection w = (x, w1)"
  shows "employees w1 = employees w \<and> auto_increment w1 = auto_increment w \<and>
         statement_log w1 = statement_log w \<and> current_timestamp w1 = current_timestamp w \<and>
         (keeps_connection (driver_script w) \<longrightarrow> keeps_connection (driver_script w1))"
proof (cases x)
  case (Inl e)
  with assms get_db_connection_Inl [of w e w1] show ?thesis
    by (auto simp: next_outcome_keeps_connection)
next
  case (Inr c)
  with assms get_db_connection_Inr [of w c w1] show ?thesis
    by (auto simp: next_outcome_keeps_connection)
qed

lemma get_db_connection_pool_Inl:
  "get_db_connection w = (Inl e, w1) \<Longrightarrow> connection_pool w1 = connection_pool w"
  using get_db_connection_Inl [of w e w1] by auto

lemma served_returns:
  assumes "ensures in_use k in_use"
  shows "fst (served k ex w) =
           Inr (case get_db_connection w of
                  (Inl e, w1) \<Rightarrow> ex (Inl e)
                | (Inr c, w1) \<Rightarrow> ex (fst (k (opened c w1))))"
proof (cases "get_db_connection w")
  case (Pair x w1)
  show ?thesis
  proof (cases x)
    case (Inl e)
    with Pair show ?thesis by (simp add: served_def)
  next
    case (Inr c)
    have "in_use (opened c w1)" by (simp add: in_use_def opened_def)
    with assms have "in_use (snd (k (opened c w1)))" by (simp add: ensures_def)
    with Pair Inr show ?thesis
      by (simp add: served_def finally_in_use case_prod_unfold)
  qed
qed

lemma served_rows:
  assumes "\<And>w1. ensures (grown w1) k (grown w1)"
  shows "\<exists>more. employees (snd (served k ex w)) = employees w @ more"
proof (cases "get_db_connection w")
  case (Pair x w1)
  from get_db_connection_fields [OF Pair] have rows: "employees w1 = employees w" by simp
  show ?thesis
  proof (cases x)
    case (Inl e)
    with Pair rows show ?thesis by (simp add: served_def)
  next
    case (Inr c)
    have "grown w1 (opened c w1)" by (simp add: grown_def in_use_def opened_def)
    with assms have "grown w1 (snd (k (opened c w1)))" by (simp add: ensures_def)
    then obtain more where "employees (world (snd (k (opened c w1)))) = employees w @ more"
      by (auto simp: grown_def rows)
    with Pair Inr finally_world [of "ex (fst (k (opened c w1)))" "snd (k (opened c w1))"]
    show ?thesis
      by (auto simp: served_def case_prod_unfold)
  qed
qed

lemma intact_prefix: "intact srv n (rows @ rows2) \<Longrightarrow> intact srv n rows"
  by (auto simp: intact_def)

lemma served_consistent:
  assumes "ensures (sound srv) k (sound srv)" and "consistent srv w"
  shows "consistent srv (snd (served k ex w))"
proof (cases "get_db_connection w")
  case (Pair x w1)
  from get_db_connection_fields [OF Pair] assms(2) have c1: "consistent srv w1"
    by (simp add: consistent_def)
  show ?thesis
  proof (cases x)
    case (Inl e)
    with Pair c1 show ?thesis by (simp add: served_def)
  next
    case (Inr c)
    with Pair have "pending c = []" using get_db_connection_Inr [of w c w1] by auto
    with c1 have "sound srv (opened c w1)"
      by (simp add: sound_def in_use_def opened_def consistent_def)
    with assms(1) have "sound srv (snd (k (opened c w1)))" by (simp add: ensures_def)
    then have "consistent srv (world (snd (k (opened c w1))))"
      by (auto simp: sound_def in_use_def consistent_def dest: intact_prefix)
    then have "consistent srv (snd (finally_clause (ex (fst (k (opened c w1)))) (snd (k (opened c w1)))))"
      using finally_world [of "ex (fst (k (opened c w1)))" "snd (k (opened c w1))"]
      by (auto simp: consistent_def)
    with Pair Inr show ?thesis
      by (simp add: served_def case_prod_unfold)
  qed
qed

lemma served_pool:
  assumes "ensures alive k alive" and "\<And>p. ensures (pool_is p) k (pool_is p)"
    and "keeps_connection (driver_script w)"
  shows "connection_pool (snd (served k ex w)) = connection_pool w"
proof (cases "get_db_connection w")
  case (Pair x w1)
  show ?thesis
  proof (cases x)
    case (Inl e)
    with Pair show ?thesis by (simp add: served_def get_db_connection_pool_Inl)
  next
    case (Inr c)
    with Pair get_db_connection_Inr [of w c w1]
    obtain idle where c: "connected c" and p: "connection_pool w = Some (Suc idle)"
      and p1: "connection_pool w1 = Some idle" by auto
    from get_db_connection_fields [OF Pair] assms(3)
    have "keeps_connection (driver_script w1)" by simp
    with c have "alive (opened c w1)" by (simp add: alive_def in_use_def opened_def)
    with assms(1) have a: "alive (snd (k (opened c w1)))" by (simp add: ensures_def)
    from p1 have "pool_is (Some idle) (opened c w1)"
      by (simp add: pool_is_def in_use_def opened_def)
    with assms(2) have b: "pool_is (Some idle) (snd (k (opened c w1)))"
      by (simp add: ensures_def)
    from a b have "connection_pool (snd (finally_clause resp (snd (k (opened c w1))))) = Some (Suc idle)"
      for resp
      by (auto simp: alive_def pool_is_def in_use_def finally_clause_def close_connection_def)
    with Pair Inr p show ?thesis
      by (simp add: served_def case_prod_unfold)
  qed
qed

subsection \<open>Runs that do not raise\<close>

lemma seq_InrE:
  assumes "seq step rest fr = (Inr b, fr')"
  obtains a fr1 where "step fr = (Inr a, fr1)" and "rest a fr1 = (Inr b, fr')"
  using assms by (auto simp: seq_def split: prod.splits sum.splits)

lemma popped_fields [simp]:
  "connection_pool (popped w) = connection_pool w"
  "employees (popped w) = employees w"
  "auto_increment (popped w) = auto_increment w"
  "current_timestamp (popped w) = current_timestamp w"
  "statement_log (popped w) = statement_log w"
  by (simp_all add: popped_def)

lemma next_outcome_None: "next_outcome w = (None, w1) \<Longrightarrow> w1 = popped w"
  by (cases "driver_script w") (auto simp: next_outcome_def popped_def)

lemma execute_Inr:
  assumes "execute srv stmt fr = (Inr u, fr')" and "connection fr = Some c" and "cursor fr = Some cur"
  shows "run_statement srv stmt c cur
           (popped ((world fr)\<lparr>statement_log := statement_log (world fr) @ [logged stmt]\<rparr>)) =
         (Inr u, fr')"
  using assms
  by (auto simp: execute_def logged_def split: prod.splits option.splits dest: next_outcome_None)

lemma run_insert_Inr:
  assumes "run_insert srv v1 v2 v3 v4 v5 v6 v7 v8 c cur w = (Inr u, fr')"
  shows "\<exists>r. new_row srv (auto_increment w) (current_timestamp w) v1 v2 v3 v4 v5 v6 v7 v8 = Inr r \<and>
           email_key srv (email r) \<notin> email_key srv ` email ` set (employees w @ pending c) \<and>
           fr' = \<lparr>world = w\<lparr>auto_increment := auto_increment w + 1\<rparr>,
                  connection = Some (c\<lparr>pending := pending c @ [r]\<rparr>),
                  cursor = Some \<lparr>lastrowid = row_id r, result_set = []\<rparr>\<rparr>"
  using assms
  by (auto simp: run_insert_def split: sum.splits prod.splits if_splits)

lemma commit_Inr:
  assumes "commit fr = (Inr u, fr')" and "connection fr = Some c"
  shows "fr' = fr\<lparr>world := (popped (world fr))\<lparr>employees := employees (world fr) @ pending c\<rparr>,
                  connection := Some (c\<lparr>pending := []\<rparr>)\<rparr>"
  using assms
  by (auto simp: commit_def split: prod.splits option.splits dest: next_outcome_None)

lemma fetchone_Inr:
  assumes "fetchone fr = (Inr e, fr')" and "connection fr = Some c" and "cursor fr = Some cur"
  shows "e = (case result_set cur of [] \<Rightarrow> None | t # ts \<Rightarrow> Some t) \<and>
         world fr' = popped (world fr) \<and> connection fr' = Some c \<and> cursor fr' \<noteq> None"
  using assms
  by (auto simp: fetchone_def split: prod.splits option.splits list.splits dest: next_outcome_None)

lemma add_employee_statements_Inr:
  assumes run: "add_employee_statements srv (PDict kvs) (opened c w1) = (Inr resp, fr')"
    and valid: "validate (PDict kvs) = Inr None"
    and c: "pending c = []"
    and ids: "\<forall>r' \<in> set (employees w1). row_id r' < auto_increment w1"
  shows "\<exists>r. stored_row srv w1 kvs = Inr r \<and>
           email_key srv (email r) \<notin> email_key srv ` email ` set (employees w1) \<and>
           resp = created (employee_dict (row_tuple r)) \<and>
           employees (world fr') = employees w1 @ [r] \<and>
           auto_increment (world fr') = auto_increment w1 + 1 \<and>
           statement_log (world fr') = statement_log w1 @
             [logged (insert_of kvs), logged (SelectEmployeeById (row_id r))]"
proof -
  from run have "seq (execute srv (insert_of kvs)) (\<lambda>_.
     seq commit (\<lambda>_.
     seq get_lastrowid (\<lambda>employee_id.
     seq (execute srv (SelectEmployeeById employee_id)) (\<lambda>_.
     seq fetchone (\<lambda>employee.
     seq (lift (fetched_dict employee)) (\<lambda>d.
       lift (Inr (created d)))))))) (opened c w1) = (Inr resp, fr')"
    by (simp add: add_employee_statements_def insert_values_passed [OF valid])
  then show ?thesis
  proof (elim seq_InrE)
    fix u1 fr1 u2 fr2 eid fr3 u4 fr4 emp fr5 d fr6
    assume e1: "execute srv (insert_of kvs) (opened c w1) = (Inr u1, fr1)"
      and e2: "commit fr1 = (Inr u2, fr2)"
      and e3: "get_lastrowid fr2 = (Inr eid, fr3)"
      and e4: "execute srv (SelectEmployeeById eid) fr3 = (Inr u4, fr4)"
      and e5: "fetchone fr4 = (Inr emp, fr5)"
      and e6: "lift (fetched_dict emp) fr5 = (Inr d, fr6)"
      and e7: "lift (Inr (created d)) fr6 = (Inr resp, fr')"
    let ?w2 = "popped (w1\<lparr>statement_log := statement_log w1 @ [logged (insert_of kvs)]\<rparr>)"
    from execute_Inr [OF e1, of c "\<lparr>lastrowid = 0, result_set = []\<rparr>"]
    have "run_statement srv (insert_of kvs) c \<lparr>lastrowid = 0, result_set = []\<rparr> ?w2 = (Inr u1, fr1)"
      by (simp add: opened_def)
    then obtain r where nr: "stored_row srv w1 kvs = Inr r"
      and fresh: "email_key srv (email r) \<notin> email_key srv ` email ` set (employees w1)"
      and fr1: "fr1 = \<lparr>world = ?w2\<lparr>auto_increment := auto_increment w1 + 1\<rparr>,
                  connection = Some (c\<lparr>pending := [r]\<rparr>),
                  cursor = Some \<lparr>lastrowid = row_id r, result_set = []\<rparr>\<rparr>"
      by (auto simp: insert_of_def stored_row_def c dest!: run_insert_Inr)
    from nr have rid: "row_id r = auto_increment w1"
      by (auto simp: stored_row_def dest: new_row_fields)
    from commit_Inr [OF e2, of "c\<lparr>pending := [r]\<rparr>"] fr1
    have fr2: "fr2 = \<lparr>world = (popped ?w2)\<lparr>auto_increment := auto_increment w1 + 1,
                        employees := employees w1 @ [r]\<rparr>,
                  connection = Some (c\<lparr>pending := []\<rparr>),
                  cursor = Some \<lparr>lastrowid = row_id r, result_set = []\<rparr>\<rparr>"
      by (simp add: popped_def)
    from e3 fr2 have eid: "eid = row_id r" and fr3: "fr3 = fr2"
      by (auto simp: get_lastrowid_def)
    from ids rid have sel: "filter (\<lambda>r'. row_id r' = row_id r) (employees w1) = []"
      by (auto simp: filter_empty_conv)
    let ?w4 = "popped ((world fr2)\<lparr>statement_log := statement_log (world fr2) @
                 [logged (SelectEmployeeById (row_id r))]\<rparr>)"
    from execute_Inr [OF e4, of "c\<lparr>pending := []\<rparr>" "\<lparr>lastrowid = row_id r, result_set = []\<rparr>"]
    have fr4: "fr4 = \<lparr>world = ?w4, connection = Some (c\<lparr>pending := []\<rparr>),
                 cursor = Some \<lparr>lastrowid = row_id r, result_set = [row_tuple r]\<rparr>\<rparr>"
      by (simp add: fr3 fr2 eid sel)
    from fetchone_Inr [OF e5, of "c\<lparr>pending := []\<rparr>" "\<lparr>lastrowid = row_id r, result_set = [row_tuple r]\<rparr>"]
    have emp: "emp = Some (row_tuple r)" and w5: "world fr5 = popped ?w4"
      by (simp_all add: fr4)
    from e6 emp have d: "d = employee_dict (row_tuple r)" and fr6: "fr6 = fr5"
      by (simp_all add: fetched_dict_def)
    from e7 have resp: "resp = created d" and fr': "fr' = fr6" by simp_all
    show ?thesis
      using nr fresh
      by (intro exI [of _ r]) (simp add: resp d fr' fr6 w5 fr2)
  qed
qed

subsection \<open>What every run of a handler keeps\<close>

lemma py_in_Inl: "py_in key v = Inl e \<Longrightarrow> e = not_iterable"
  by (cases v) auto

lemma validate_raises:
  assumes "validate data = Inl e"
  shows "add_employee_except (Inl e) = error_response ''Internal server error'' 500"
proof (cases "\<exists>kvs. data = PDict kvs")
  case True
  then obtain kvs where "data = PDict kvs" by blast
  with assms have "e = not_iterable"
    by (auto simp: validate_dict split: option.splits sum.splits if_splits dest: py_in_Inl)
  then show ?thesis by simp
next
  case False
  then have nd: "\<forall>kvs. data \<noteq> PDict kvs" by blast
  from assms show ?thesis
    by (auto simp: validate_not_dict [OF nd] split: sum.splits if_splits dest: py_in_Inl)
qed

lemma validate_None_dict:
  assumes "validate data = Inr None"
  shows "\<exists>kvs. data = PDict kvs"
proof (rule ccontr)
  assume "\<not> (\<exists>kvs. data = PDict kvs)"
  then have nd: "\<forall>kvs. data \<noteq> PDict kvs" by blast
  from assms show False
    by (auto simp: validate_not_dict [OF nd] split: sum.splits if_splits)
qed

lemma validate_rejection:
  assumes "validate data = Inr (Some r)"
  shows "r = error_response ''Invalid email format'' 400 \<or>
         (\<exists>f \<in> set required_fields. r = missing_field f)"
proof (cases "\<exists>kvs. data = PDict kvs")
  case True
  then obtain kvs where "data = PDict kvs" by blast
  with assms show ?thesis
    by (auto simp: validate_dict find_Some_iff split: option.splits sum.splits if_splits)
next
  case False
  then have nd: "\<forall>kvs. data \<noteq> PDict kvs" by blast
  from assms show ?thesis
    by (auto simp: validate_not_dict [OF nd] required_fields_def split: sum.splits if_splits)
qed

lemma validate_rejection_status: "validate data = Inr (Some r) \<Longrightarrow> status r = 400"
  by (auto dest!: validate_rejection simp: error_response_def missing_field_def)

lemma add_employee_cases:
  "add_employee srv req w =
     (case get_json req of
        Inl e \<Rightarrow> (Inr (error_response ''Internal server error'' 500), w)
      | Inr data \<Rightarrow>
          (case validate data of
             Inl e \<Rightarrow> (Inr (error_response ''Internal server error'' 500), w)
           | Inr (Some r) \<Rightarrow> (Inr r, w)
           | Inr None \<Rightarrow> served (add_employee_statements srv data) add_employee_except w))"
proof (cases req)
  case NoBody
  then show ?thesis by (simp add: add_employee_def add_employee_try_def)
next
  case (Body data)
  show ?thesis
  proof (cases "validate data")
    case (Inl e)
    with Body validate_raises [OF Inl] show ?thesis
      by (simp add: add_employee_def add_employee_try_def)
  next
    case (Inr invalid)
    with Body show ?thesis
      by (cases invalid)
        (simp_all add: add_employee_def add_employee_try_def insert_and_fetch_def run_open)
  qed
qed

lemma add_employee_returns: "\<exists>resp. fst (add_employee srv req w) = Inr resp"
  by (simp add: add_employee_cases served_returns statements_keep
      split: sum.splits option.splits)

lemma add_employee_rows: "\<exists>more. employees (snd (add_employee srv req w)) = employees w @ more"
  by (simp add: add_employee_cases served_rows statements_keep
      split: sum.splits option.splits)

lemma add_employee_consistent:
  "consistent srv w \<Longrightarrow> consistent srv (snd (add_employee srv req w))"
  by (simp add: add_employee_cases served_consistent statements_keep
      split: sum.splits option.splits)

lemma add_employee_pool:
  "keeps_connection (driver_script w) \<Longrightarrow>
     connection_pool (snd (add_employee srv req w)) = connection_pool w"
  by (simp add: add_employee_cases served_pool statements_keep
      split: sum.splits option.splits)

lemma get_employee_facts:
  "\<exists>resp. fst (get_employee srv i w) = Inr resp"
  "\<exists>more. employees (snd (get_employee srv i w)) = employees w @ more"
  "consistent srv w \<Longrightarrow> consistent srv (snd (get_employee srv i w))"
  "keeps_connection (driver_script w) \<Longrightarrow>
     connection_pool (snd (get_employee srv i w)) = connection_pool w"
  by (simp_all add: get_employee_served served_returns served_rows served_consistent served_pool
      statements_keep)

lemma get_all_employees_facts:
  "\<exists>resp. fst (get_all_employees srv w) = Inr resp"
  "\<exists>more. employees (snd (get_all_employees srv w)) = employees w @ more"
  "consistent srv w \<Longrightarrow> consistent srv (snd (get_all_employees srv w))"
  "keeps_connection (driver_script w) \<Longrightarrow>
     connection_pool (snd (get_all_employees srv w)) = connection_pool w"
  by (simp_all add: get_all_employees_served served_returns served_rows served_consistent
      served_pool statements_keep)

subsection \<open>Requests without a pool\<close>

text \<open>
  C9, as the code has it. When the construction of the pool at the start of the module
  raises a \<open>mysql.connector.Error\<close>, the global \<open>connection_pool\<close> is \<open>None\<close>. No
  sequence of requests changes the world then, so the pool stays \<open>None\<close>;
  \<open>get_db_connection\<close> raises its \<open>Database connection pool not available\<close>
  exception without a call into the driver; get-by-id and get-all answer 500 with
  \<open>Internal server error\<close>. A create checks its body before it asks for a connection:
  it answers with the rejection of the validation, status 400, when there is one, and 500
  with \<open>Internal server error\<close> in every other case (no body, a validation that raises,
  or a body that passes the validation).
\<close>

theorem pool_unavailable_is_permanent:
  assumes "init_connection_pool (Some (MySQLError n m)) = Inr (connection_pool w)"
  shows "connection_pool w = None \<and>
         serve srv reqs w = w \<and>
         get_db_connection (serve srv reqs w) =
           (Inl (PyException ''Database connection pool not available''), w) \<and>
         get_employee srv employee_id (serve srv reqs w) =
           (Inr (error_response ''Internal server error'' 500), w) \<and>
         get_all_employees srv (serve srv reqs w) =
           (Inr (error_response ''Internal server error'' 500), w) \<and>
         (\<exists>resp. add_employee srv req (serve srv reqs w) = (Inr resp, w) \<and>
            resp = (case get_json req of
                      Inl e \<Rightarrow> error_response ''Internal server error'' 500
                    | Inr body \<Rightarrow>
                        (case validate body of
                           Inl e \<Rightarrow> error_response ''Internal server error'' 500
                         | Inr (Some rejection) \<Rightarrow> rejection
                         | Inr None \<Rightarrow> error_response ''Internal server error'' 500)) \<and>
            status resp = (case get_json req of
                      Inl e \<Rightarrow> 500
                    | Inr body \<Rightarrow>
                        (case validate body of
                           Inl e \<Rightarrow> 500
                         | Inr (Some rejection) \<Rightarrow> 400
                         | Inr None \<Rightarrow> 500))) \<and>
         (validate data = Inr None \<longrightarrow>
            add_employee srv (Body data) (serve srv reqs w) =
              (Inr (error_response ''Internal server error'' 500), w))"
proof -
  from assms have none: "connection_pool w = None" by simp
  then have same: "serve srv reqs w = w" by (rule serve_no_pool)
  from none have conn: "get_db_connection w =
      (Inl (PyException ''Database connection pool not available''), w)"
    by (simp add: get_db_connection_def)
  have create: "add_employee srv r w =
      (Inr (case get_json r of
              Inl e \<Rightarrow> error_response ''Internal server error'' 500
            | Inr body \<Rightarrow>
                (case validate body of
                   Inl e \<Rightarrow> error_response ''Internal server error'' 500
                 | Inr (Some rejection) \<Rightarrow> rejection
                 | Inr None \<Rightarrow> error_response ''Internal server error'' 500)), w)" for r
    by (simp add: add_employee_cases served_def conn split: sum.splits option.splits)
  have st: "status (case get_json req of
              Inl e \<Rightarrow> error_response ''Internal server error'' 500
            | Inr body \<Rightarrow>
                (case validate body of
                   Inl e \<Rightarrow> error_response ''Internal server error'' 500
                 | Inr (Some rejection) \<Rightarrow> rejection
                 | Inr None \<Rightarrow> error_response ''Internal server error'' 500)) =
       (case get_json req of
                      Inl e \<Rightarrow> 500
                    | Inr body \<Rightarrow>
                        (case validate body of
                           Inl e \<Rightarrow> 500
                         | Inr (Some rejection) \<Rightarrow> 400
                         | Inr None \<Rightarrow> 500))"
    by (simp add: validate_rejection_status error_response_def split: sum.splits option.splits)
  show ?thesis
    using none st
    by (simp add: same conn create get_employee_no_pool get_all_employees_no_pool)
qed

theorem pool_unavailable_is_permanent_witness:
  "init_connection_pool (Some (MySQLError 2003 ''Cannot connect to MySQL server'')) =
     Inr (connection_pool no_pool_world) \<and>
   validate ann = Inr None \<and>
   serve example_server [GET_employees, POST_employees (Body ann), GET_employee 1] no_pool_world =
     no_pool_world \<and>
   get_employee example_server 1
       (serve example_server [GET_employees, POST_employees (Body ann), GET_employee 1]
          no_pool_world) =
     (Inr (error_response ''Internal server error'' 500), no_pool_world) \<and>
   add_employee example_server (Body ann)
       (serve example_server [GET_employees, POST_employees (Body ann), GET_employee 1]
          no_pool_world) =
     (Inr (error_response ''Internal server error'' 500), no_pool_world)"
proof -
  have start: "init_connection_pool (Some (MySQLError 2003 ''Cannot connect to MySQL server'')) =
     Inr (connection_pool no_pool_world)"
    by (simp add: no_pool_world_def)
  show ?thesis
    using start validate_ann
      pool_unavailable_is_permanent [OF start, where srv = example_server and
        reqs = "[GET_employees, POST_employees (Body ann), GET_employee 1]" and employee_id = 1
        and data = ann and req = "Body ann"]
    by (auto simp del: serve.simps)
qed

text \<open>
  Without a pool, a create whose body has no email is answered 400, not 500: the
  validation returns before \<open>get_db_connection\<close> is called.
\<close>

theorem create_without_email_no_pool_counterexample:
  "init_connection_pool (Some (MySQLError 2003 ''Cannot connect to MySQL server'')) =
     Inr (connection_pool no_pool_world) \<and>
   add_employee example_server
       (Body (PDict [(''first_name'', PStr ''Ann''), (''last_name'', PStr ''Lee'')]))
       no_pool_world =
     (Inr (error_response ''Missing required field: email'' 400), no_pool_world) \<and>
   status (error_response ''Missing required field: email'' 400) = 400"
  by (simp add: no_pool_world_def add_employee_def add_employee_try_def validate_def
      required_fields_def missing_field_def error_response_def)

subsection \<open>Connections per request\<close>

lemmas example_defs = empty_world_def pool_size_def noon_def ann_def ann_fields_def
  hired_def hired_fields_def example_server_def timeout_world_def lost_world_def

lemmas eval_defs = get_employee_def get_employee_try_def get_employee_statements_def
  get_all_employees_def get_all_employees_try_def get_all_employees_statements_def
  add_employee_def add_employee_try_def insert_and_fetch_def add_employee_statements_def
  seq_def acquire_def open_cursor_def execute_def commit_def fetchone_def
  fetchall_def get_lastrowid_def new_frame_def finally_clause_def close_connection_def
  get_db_connection_def pool_get_connection_def next_outcome_def raised_def fails_def
  run_insert_def new_row_def and_then_def not_null_def or_null_def
  validate_def required_fields_def insert_values_def fetched_dict_def found_def listing_def
  created_def error_response_def missing_field_def

text \<open>
  C4, as the code has it. The \<open>finally\<close> clause closes the connection only if
  \<open>connection.is_connected()\<close> holds. So, as long as no fault loses the connection,
  every run of a handler (whatever it answers: success, 400, 404, 409 or a storage
  error) gives the connection it took back to the pool: the pool has as many idle
  connections after the request as before.
\<close>

theorem connection_released_while_connected:
  assumes "keeps_connection (driver_script w)"
  shows "connection_pool (snd (add_employee srv req w)) = connection_pool w \<and>
         connection_pool (snd (get_employee srv employee_id w)) = connection_pool w \<and>
         connection_pool (snd (get_all_employees srv w)) = connection_pool w"
  using assms by (simp add: add_employee_pool get_employee_facts get_all_employees_facts)

theorem connection_released_while_connected_witness:
  "keeps_connection (driver_script timeout_world) \<and>
   fst (add_employee example_server (Body ann) timeout_world) =
     Inr (error_response ''Database error occurred'' 500) \<and>
   connection_pool (snd (add_employee example_server (Body ann) timeout_world)) = Some 5 \<and>
   connection_pool (snd (get_employee example_server 1 timeout_world)) = Some 5 \<and>
   connection_pool (snd (get_all_employees example_server timeout_world)) = Some 5"
proof -
  have k: "keeps_connection (driver_script timeout_world)"
    by (simp add: keeps_connection_def timeout_world_def)
  have p: "connection_pool timeout_world = Some 5"
    by (simp add: example_defs)
  have r: "fst (add_employee example_server (Body ann) timeout_world) =
     Inr (error_response ''Database error occurred'' 500)"
    by (simp add: eval_defs example_defs)
  show ?thesis
    using k r connection_released_while_connected [OF k, of example_server "Body ann" 1]
    by (simp add: p)
qed

text \<open>
  When the \<open>SELECT\<close> of a get-by-id fails with a lost connection, the handler answers
  500 and the connection it took is never closed: the pool is left with four idle
  connections instead of five.
\<close>

theorem connection_lost_counterexample:
  "connection_pool lost_world = Some 5 \<and>
   get_employee example_server 1 lost_world =
     (Inr (error_response ''Database error occurred'' 500),
      lost_world\<lparr>connection_pool := Some 4, driver_script := [],
        statement_log := [logged (SelectEmployeeById 1)]\<rparr>)"
  by (simp add: eval_defs example_defs logged_def)

subsection \<open>The answers of a create\<close>

lemma add_employee_statements_created:
  assumes "add_employee_statements srv data fr = (Inr resp, fr')"
  shows "\<exists>d. resp = created d"
  using assms unfolding add_employee_statements_def
  by (elim seq_InrE) auto

lemma add_employee_except_Inl:
  "add_employee_except (Inl e) = error_response ''Email already exists'' 409 \<or>
   add_employee_except (Inl e) = error_response ''Database error occurred'' 500 \<or>
   add_employee_except (Inl e) = error_response ''Internal server error'' 500"
  by (cases e) auto

lemma served_add_responses:
  assumes "fst (served (add_employee_statements srv data) add_employee_except w) = Inr resp"
  shows "(\<exists>d. resp = created d) \<or>
         resp = error_response ''Email already exists'' 409 \<or>
         resp = error_response ''Database error occurred'' 500 \<or>
         resp = error_response ''Internal server error'' 500"
proof (cases "get_db_connection w")
  case (Pair x w1)
  have ret: "fst (served (add_employee_statements srv data) add_employee_except w) =
           Inr (case get_db_connection w of
                  (Inl e, w1) \<Rightarrow> add_employee_except (Inl e)
                | (Inr c, w1) \<Rightarrow> add_employee_except (fst (add_employee_statements srv data (opened c w1))))"
    by (rule served_returns) (rule statements_keep)
  show ?thesis
  proof (cases x)
    case (Inl e)
    with Pair ret assms add_employee_except_Inl [of e] show ?thesis by auto
  next
    case (Inr c)
    obtain y fr where run: "add_employee_statements srv data (opened c w1) = (y, fr)"
      by (cases "add_employee_statements srv data (opened c w1)")
    show ?thesis
    proof (cases y)
      case (Inl e)
      with Pair Inr run ret assms add_employee_except_Inl [of e] show ?thesis by auto
    next
      case (Inr r)
      with run add_employee_statements_created have "\<exists>d. r = created d" by blast
      with Pair \<open>x = Inr c\<close> Inr run ret assms show ?thesis by auto
    qed
  qed
qed

lemma add_employee_responses:
  assumes "fst (add_employee srv req w) = Inr resp"
  shows "(\<exists>d. resp = created d) \<or>
         resp = error_response ''Email already exists'' 409 \<or>
         resp = error_response ''Database error occurred'' 500 \<or>
         resp = error_response ''Internal server error'' 500 \<or>
         resp = error_response ''Invalid email format'' 400 \<or>
         (\<exists>f \<in> set required_fields. resp = missing_field f)"
proof (cases "get_json req")
  case (Inl e)
  with assms show ?thesis by (simp add: add_employee_cases)
next
  case (Inr data)
  show ?thesis
  proof (cases "validate data")
    case (Inl e)
    with Inr assms show ?thesis by (simp add: add_employee_cases)
  next
    case inner: (Inr invalid)
    show ?thesis
    proof (cases invalid)
      case None
      with Inr inner assms served_add_responses [of srv data w resp] show ?thesis
        by (auto simp: add_employee_cases)
    next
      case (Some r)
      with Inr inner assms validate_rejection [of data r] show ?thesis
        by (auto simp: add_employee_cases)
    qed
  qed
qed

lemma status_simps [simp]:
  "status (created d) = 201"
  "status (error_response text code) = code"
  "status (missing_field f) = 400"
  by (simp_all add: created_def error_response_def missing_field_def)

text \<open>
  C2, as the code has it. For a body that is an object, the create answers 400 exactly
  when one of \<open>first_name\<close>, \<open>last_name\<close>, \<open>email\<close> is missing or has a value that
  counts as false, or when all three are there and the test \<open>'@' in data['email']\<close>
  gives \<open>False\<close> (an email that is a string, a list or an object without \<open>@\<close>). In
  these cases the world is left as it was: no connection is taken, nothing is stored.
  (An email that is a number or \<open>True\<close> makes the test raise, and the answer is 500.)
\<close>

theorem add_employee_rejects:
  "((\<exists>r. fst (add_employee srv (Body (PDict kvs)) w) = Inr r \<and> status r = 400) \<longleftrightarrow>
      (\<exists>field \<in> set required_fields. lacking kvs field) \<or>
      py_in ''@'' (submitted kvs ''email'') = Inr False) \<and>
   ((\<exists>field \<in> set required_fields. lacking kvs field) \<or>
      py_in ''@'' (submitted kvs ''email'') = Inr False \<longrightarrow>
      snd (add_employee srv (Body (PDict kvs)) w) = w)"
proof (cases "validate (PDict kvs)")
  case (Inl e)
  then have no: "\<not> ((\<exists>field \<in> set required_fields. lacking kvs field) \<or>
      py_in ''@'' (submitted kvs ''email'') = Inr False)"
    by (auto simp: validate_dict find_None_iff split: option.splits sum.splits if_splits)
  from Inl have "fst (add_employee srv (Body (PDict kvs)) w) =
      Inr (error_response ''Internal server error'' 500)"
    by (simp add: add_employee_cases)
  with no show ?thesis by auto
next
  case (Inr invalid)
  show ?thesis
  proof (cases invalid)
    case None
    with Inr have no: "\<not> ((\<exists>field \<in> set required_fields. lacking kvs field) \<or>
      py_in ''@'' (submitted kvs ''email'') = Inr False)"
      by (auto simp: validate_dict find_None_iff split: option.splits sum.splits if_splits)
    have "status r \<noteq> 400" if "fst (add_employee srv (Body (PDict kvs)) w) = Inr r" for r
      using that Inr None served_add_responses [of srv "PDict kvs" w r]
      by (auto simp: add_employee_cases)
    with no show ?thesis by auto
  next
    case (Some r)
    with Inr have yes: "(\<exists>field \<in> set required_fields. lacking kvs field) \<or>
      py_in ''@'' (submitted kvs ''email'') = Inr False"
      by (auto simp: validate_dict find_Some_iff split: option.splits sum.splits if_splits)
    from Inr Some have "add_employee srv (Body (PDict kvs)) w = (Inr r, w)"
      by (simp add: add_employee_cases)
    moreover from Inr Some have "status r = 400" by (simp add: validate_rejection_status)
    ultimately show ?thesis using yes by auto
  qed
qed

theorem add_employee_rejects_witness:
  "(\<exists>field \<in> set required_fields.
      lacking [(''first_name'', PStr ''Ann''), (''last_name'', PStr ''Lee'')] field) \<and>
   (\<exists>r. fst (add_employee example_server
          (Body (PDict [(''first_name'', PStr ''Ann''), (''last_name'', PStr ''Lee'')]))
          empty_world) = Inr r \<and> status r = 400) \<and>
   snd (add_employee example_server
          (Body (PDict [(''first_name'', PStr ''Ann''), (''last_name'', PStr ''Lee'')]))
          empty_world) = empty_world"
proof -
  have h: "\<exists>field \<in> set required_fields.
      lacking [(''first_name'', PStr ''Ann''), (''last_name'', PStr ''Lee'')] field"
    by (simp add: required_fields_def lacking_def)
  show ?thesis
    using h add_employee_rejects [of example_server
        "[(''first_name'', PStr ''Ann''), (''last_name'', PStr ''Lee'')]" empty_world]
    by blast
qed

text \<open>
  A body whose email is the number 5 has the three fields, none of them false, and its
  email contains no \<open>@\<close>; the test \<open>'@' not in data['email']\<close> raises \<open>TypeError\<close> on
  it, and the answer is 500, not 400.
\<close>

theorem add_employee_numeric_email_counterexample:
  "fst (add_employee example_server
          (Body (PDict [(''first_name'', PStr ''Ann''), (''last_name'', PStr ''Lee''),
                        (''email'', PInt 5)]))
          empty_world) = Inr (error_response ''Internal server error'' 500) \<and>
   status (error_response ''Internal server error'' 500) \<noteq> 400"
  by (simp add: add_employee_def add_employee_try_def validate_def required_fields_def)

subsection \<open>Storage errors during a create\<close>

lemma add_employee_quiet_duplicate:
  assumes valid: "validate (PDict kvs) = Inr None"
    and pool: "connection_pool w = Some (Suc idle)"
    and quiet: "driver_script w = []"
    and stored: "stored_row srv w kvs = Inr r"
    and clash: "email_key srv (email r) \<in> email_key srv ` email ` set (employees w)"
  shows "add_employee srv (Body (PDict kvs)) w =
     (Inr (error_response ''Email already exists'' 409),
      w\<lparr>auto_increment := auto_increment w + 1,
        statement_log := statement_log w @ [logged (insert_of kvs)]\<rparr>)"
proof -
  from stored have nr: "new_row srv (auto_increment w) (current_timestamp w)
       (submitted kvs ''first_name'') (submitted kvs ''last_name'')
       (submitted kvs ''email'') (submitted kvs ''phone'') (submitted kvs ''department'')
       (submitted kvs ''position'') (submitted kvs ''salary'') (submitted kvs ''hire_date'') = Inr r"
    by (simp add: stored_row_def)
  show ?thesis
    using pool quiet clash
    by (simp add: add_employee_def add_employee_try_def valid insert_and_fetch_def
        add_employee_statements_def
        insert_values_passed [OF valid] insert_of_def nr logged_def
        seq_def acquire_def open_cursor_def execute_def
        run_insert_def
        new_frame_def finally_clause_def close_connection_def
        get_db_connection_quiet next_outcome_quiet)
qed

lemma add_employee_quiet_refused:
  assumes valid: "validate (PDict kvs) = Inr None"
    and pool: "connection_pool w = Some (Suc idle)"
    and quiet: "driver_script w = []"
    and stored: "stored_row srv w kvs = Inl (n, m)"
  shows "add_employee srv (Body (PDict kvs)) w =
     (Inr (add_employee_except (Inl (MySQLError n m))),
      w\<lparr>statement_log := statement_log w @ [logged (insert_of kvs)]\<rparr>)"
proof -
  from stored have nr: "new_row srv (auto_increment w) (current_timestamp w)
       (submitted kvs ''first_name'') (submitted kvs ''last_name'')
       (submitted kvs ''email'') (submitted kvs ''phone'') (submitted kvs ''department'')
       (submitted kvs ''position'') (submitted kvs ''salary'') (submitted kvs ''hire_date'') = Inl (n, m)"
    by (simp add: stored_row_def)
  show ?thesis
    using pool quiet
    by (simp add: add_employee_def add_employee_try_def valid insert_and_fetch_def
        add_employee_statements_def
        insert_values_passed [OF valid] insert_of_def nr logged_def
        seq_def acquire_def open_cursor_def execute_def
        run_insert_def
        new_frame_def finally_clause_def close_connection_def
        get_db_connection_quiet next_outcome_quiet)
qed

lemma finally_fst: "fst (finally_clause resp fr) = Inr resp' \<Longrightarrow> resp' = resp"
  by (auto simp: finally_clause_def split: option.splits if_splits)

lemma add_employee_try_response:
  assumes "add_employee_try srv req (new_frame w) = (x, fr)"
  shows "fst (add_employee srv req w) = Inr (add_employee_except x)"
proof -
  obtain resp where r: "fst (add_employee srv req w) = Inr resp"
    using add_employee_returns by blast
  with assms have "fst (finally_clause (add_employee_except x) fr) = Inr resp"
    by (simp add: add_employee_def)
  then have "resp = add_employee_except x" by (rule finally_fst)
  with r show ?thesis by simp
qed

text \<open>
  C3. When the pool gives a connection, no call into the driver fails and the server
  accepts the submitted values but a stored row has the same email key, the \<open>INSERT\<close>
  raises error 1062 and the create answers 409 with \<open>Email already exists\<close>; the table
  has the rows it had, and a get-by-id answers after the create what it answered before.
  Whenever the \<open>try\<close> block of a create raises a \<open>mysql.connector.Error\<close>, the answer
  is 409 for error 1062 and 500 with \<open>Database error occurred\<close> for every other error
  number. A create always returns a response, and a response other than the 201 is one
  of a few fixed messages: the text of an exception never goes into it.
\<close>

theorem add_employee_storage_errors:
  "(validate (PDict kvs) = Inr None \<and> connection_pool w = Some (Suc idle) \<and>
    driver_script w = [] \<and> stored_row srv w kvs = Inr r \<and>
    email_key srv (email r) \<in> email_key srv ` email ` set (employees w) \<longrightarrow>
      fst (add_employee srv (Body (PDict kvs)) w) =
        Inr (error_response ''Email already exists'' 409) \<and>
      employees (snd (add_employee srv (Body (PDict kvs)) w)) = employees w \<and>
      fst (get_employee srv employee_id (snd (add_employee srv (Body (PDict kvs)) w))) =
        fst (get_employee srv employee_id w)) \<and>
   (add_employee_try srv req (new_frame w) = (Inl (MySQLError n m), fr) \<longrightarrow>
      fst (add_employee srv req w) =
        Inr (if n = 1062 then error_response ''Email already exists'' 409
             else error_response ''Database error occurred'' 500)) \<and>
   (\<exists>resp. fst (add_employee srv req w) = Inr resp \<and>
      ((\<exists>d. resp = created d) \<or>
       resp = error_response ''Email already exists'' 409 \<or>
       resp = error_response ''Database error occurred'' 500 \<or>
       resp = error_response ''Internal server error'' 500 \<or>
       resp = error_response ''Invalid email format'' 400 \<or>
       (\<exists>field \<in> set required_fields. resp = missing_field field)))"
proof (intro conjI impI)
  assume h: "validate (PDict kvs) = Inr None \<and> connection_pool w = Some (Suc idle) \<and>
    driver_script w = [] \<and> stored_row srv w kvs = Inr r \<and>
    email_key srv (email r) \<in> email_key srv ` email ` set (employees w)"
  then have run: "add_employee srv (Body (PDict kvs)) w =
     (Inr (error_response ''Email already exists'' 409),
      w\<lparr>auto_increment := auto_increment w + 1,
        statement_log := statement_log w @ [logged (insert_of kvs)]\<rparr>)"
    using add_employee_quiet_duplicate [of kvs w idle srv r] by blast
  show "fst (add_employee srv (Body (PDict kvs)) w) =
        Inr (error_response ''Email already exists'' 409)"
    by (simp add: run)
  show "employees (snd (add_employee srv (Body (PDict kvs)) w)) = employees w"
    by (simp add: run)
  from h show "fst (get_employee srv employee_id (snd (add_employee srv (Body (PDict kvs)) w))) =
        fst (get_employee srv employee_id w)"
    by (simp add: run get_employee_quiet [where idle = idle])
next
  assume "add_employee_try srv req (new_frame w) = (Inl (MySQLError n m), fr)"
  then show "fst (add_employee srv req w) =
        Inr (if n = 1062 then error_response ''Email already exists'' 409
             else error_response ''Database error occurred'' 500)"
    by (simp add: add_employee_try_response)
next
  show "\<exists>resp. fst (add_employee srv req w) = Inr resp \<and>
      ((\<exists>d. resp = created d) \<or>
       resp = error_response ''Email already exists'' 409 \<or>
       resp = error_response ''Database error occurred'' 500 \<or>
       resp = error_response ''Internal server error'' 500 \<or>
       resp = error_response ''Invalid email format'' 400 \<or>
       (\<exists>field \<in> set required_fields. resp = missing_field field))"
    using add_employee_returns [of srv req w] add_employee_responses [of srv req w] by blast
qed

lemmas store_defs = stored_row_def new_row_def and_then_def not_null_def or_null_def
  submitted_def parse_date_def digit_value_def

lemma stored_hired: "stored_row example_server empty_world hired_fields = Inr hired_row"
  by (simp add: store_defs example_defs hired_row_def)

lemma digits_2: "digits 2 n = [''0123456789'' ! (n div 10 mod 10), ''0123456789'' ! (n mod 10)]"
proof -
  have "digits (Suc (Suc 0)) n = [''0123456789'' ! (n div 10 mod 10), ''0123456789'' ! (n mod 10)]"
    by simp
  then show ?thesis by (simp only: numeral_2_eq_2)
qed

lemma digits_4:
  "digits 4 n = [''0123456789'' ! (n div 10 div 10 div 10 mod 10), ''0123456789'' ! (n div 10 div 10 mod 10),
                 ''0123456789'' ! (n div 10 mod 10), ''0123456789'' ! (n mod 10)]"
proof -
  have "digits (Suc (Suc (Suc (Suc 0)))) n =
      [''0123456789'' ! (n div 10 div 10 div 10 mod 10), ''0123456789'' ! (n div 10 div 10 mod 10),
       ''0123456789'' ! (n div 10 mod 10), ''0123456789'' ! (n mod 10)]"
    by simp
  moreover have "(4::nat) = Suc (Suc (Suc (Suc 0)))" by simp
  ultimately show ?thesis by (simp only:)
qed

lemma isoformat_noon: "isoformat noon = ''2024-03-05T12:00:00''"
  by (simp add: isoformat_def noon_def digits_2 digits_4)

lemma stored_ann: "stored_row example_server empty_world ann_fields = Inr ann_row"
  by (simp add: store_defs example_defs ann_row_def)

lemma stored_ann_again:
  "stored_row example_server ann_world ann_fields = Inr (ann_row\<lparr>row_id := 2\<rparr>)"
  by (simp add: store_defs example_defs ann_row_def ann_world_def)

theorem add_employee_storage_errors_witness:
  "validate (PDict ann_fields) = Inr None \<and> connection_pool ann_world = Some (Suc 4) \<and>
   driver_script ann_world = [] \<and>
   stored_row example_server ann_world ann_fields = Inr (ann_row\<lparr>row_id := 2\<rparr>) \<and>
   email_key example_server (email (ann_row\<lparr>row_id := 2\<rparr>)) \<in>
     email_key example_server ` email ` set (employees ann_world) \<and>
   fst (add_employee example_server (Body (PDict ann_fields)) ann_world) =
     Inr (error_response ''Email already exists'' 409) \<and>
   employees (snd (add_employee example_server (Body (PDict ann_fields)) ann_world)) =
     employees ann_world \<and>
   add_employee_try example_server (Body ann) (new_frame timeout_world) =
     (Inl (MySQLError 1205 ''Lock wait timeout exceeded''),
      snd (add_employee_try example_server (Body ann) (new_frame timeout_world))) \<and>
   fst (add_employee example_server (Body ann) timeout_world) =
     Inr (error_response ''Database error occurred'' 500)"
proof -
  have h1: "validate (PDict ann_fields) = Inr None"
    using validate_ann by (simp add: ann_def)
  have h2: "connection_pool ann_world = Some (Suc 4)" and h3: "driver_script ann_world = []"
    by (simp_all add: ann_world_def example_defs)
  have h5: "email_key example_server (email (ann_row\<lparr>row_id := 2\<rparr>)) \<in>
     email_key example_server ` email ` set (employees ann_world)"
    by (simp add: ann_world_def)
  have "fst (add_employee_try example_server (Body ann) (new_frame timeout_world)) =
      Inl (MySQLError 1205 ''Lock wait timeout exceeded'')"
    by (simp add: eval_defs example_defs)
  then have h6: "add_employee_try example_server (Body ann) (new_frame timeout_world) =
     (Inl (MySQLError 1205 ''Lock wait timeout exceeded''),
      snd (add_employee_try example_server (Body ann) (new_frame timeout_world)))"
    by (metis prod.collapse)
  from add_employee_storage_errors [where kvs = ann_fields and w = ann_world and idle = 4
      and srv = example_server and r = "ann_row\<lparr>row_id := 2\<rparr>"] h1 h2 h3 h5 stored_ann_again
  have c1: "fst (add_employee example_server (Body (PDict ann_fields)) ann_world) =
     Inr (error_response ''Email already exists'' 409) \<and>
   employees (snd (add_employee example_server (Body (PDict ann_fields)) ann_world)) =
     employees ann_world"
    by blast
  from add_employee_storage_errors [where req = "Body ann" and w = timeout_world and n = 1205
      and m = "''Lock wait timeout exceeded''" and srv = example_server] h6
  have c2: "fst (add_employee example_server (Body ann) timeout_world) =
     Inr (error_response ''Database error occurred'' 500)"
    by simp
  from h1 h2 h3 h5 stored_ann_again h6 c1 c2 show ?thesis by blast
qed

subsection \<open>A create that succeeds\<close>

lemma or_null_None: "or_null store PNone = Inr None"
  by (simp add: or_null_def)

lemma submitted_missing: "map_of kvs key = None \<Longrightarrow> submitted kvs key = PNone"
  by (simp add: submitted_def)

lemma consistent_ids:
  "consistent srv w \<Longrightarrow> 0 < auto_increment w \<and> (\<forall>r \<in> set (employees w). row_id r < auto_increment w)"
  by (simp add: consistent_def intact_def)

text \<open>
  C1, as the code has it. Take a body that passes the validation, a pool that gives a
  connection, a script without faults, an intact table, submitted values that the
  server accepts (\<open>stored_row\<close> gives the row \<open>r\<close>) and no stored row with the email
  key of \<open>r\<close>. Then the create stores \<open>r\<close> and nothing else, reads it again by its id
  and answers 201 with it. The row holds each submitted value as the server converted it
  to its column, \<open>NULL\<close> for an optional field the body does not have, the counter of
  the table as id and the server's clock in both timestamps. The answer shows the
  texts as strings, the salary as a \<open>Decimal\<close>, the hire date as a \<open>date\<close> and the
  timestamps in ISO form. The id is positive and no row of the table has it.
\<close>

theorem add_employee_creates:
  assumes valid: "validate (PDict kvs) = Inr None"
    and pool: "connection_pool w = Some (Suc idle)"
    and quiet: "driver_script w = []"
    and table: "consistent srv w"
    and stored: "stored_row srv w kvs = Inr r"
    and fresh: "email_key srv (email r) \<notin> email_key srv ` email ` set (employees w)"
  shows "add_employee srv (Body (PDict kvs)) w =
           (Inr (created (employee_dict (row_tuple r))),
            w\<lparr>employees := employees w @ [r],
              auto_increment := auto_increment w + 1,
              statement_log := statement_log w @
                [logged (insert_of kvs), logged (SelectEmployeeById (row_id r))]\<rparr>) \<and>
         employee_dict (row_tuple r) =
           [(''id'', PInt (row_id r)), (''first_name'', PStr (first_name r)),
            (''last_name'', PStr (last_name r)), (''email'', PStr (email r)),
            (''phone'', nullable PStr (phone r)), (''department'', nullable PStr (department r)),
            (''position'', nullable PStr (position r)), (''salary'', nullable PDecimal (salary r)),
            (''hire_date'', nullable PDate (hire_date r)),
            (''created_at'', PStr (isoformat (current_timestamp w))),
            (''updated_at'', PStr (isoformat (current_timestamp w)))] \<and>
         row_id r = auto_increment w \<and> 0 < row_id r \<and> row_id r \<notin> row_id ` set (employees w) \<and>
         not_null (sql_varchar srv 100) (submitted kvs ''first_name'') = Inr (first_name r) \<and>
         not_null (sql_varchar srv 100) (submitted kvs ''last_name'') = Inr (last_name r) \<and>
         not_null (sql_varchar srv 255) (submitted kvs ''email'') = Inr (email r) \<and>
         or_null (sql_varchar srv 20) (submitted kvs ''phone'') = Inr (phone r) \<and>
         or_null (sql_varchar srv 100) (submitted kvs ''department'') = Inr (department r) \<and>
         or_null (sql_varchar srv 100) (submitted kvs ''position'') = Inr (position r) \<and>
         or_null (sql_decimal srv) (submitted kvs ''salary'') = Inr (salary r) \<and>
         or_null (sql_date srv) (submitted kvs ''hire_date'') = Inr (hire_date r) \<and>
         (map_of kvs ''phone'' = None \<longrightarrow> phone r = None) \<and>
         (map_of kvs ''department'' = None \<longrightarrow> department r = None) \<and>
         (map_of kvs ''position'' = None \<longrightarrow> position r = None) \<and>
         (map_of kvs ''salary'' = None \<longrightarrow> salary r = None) \<and>
         (map_of kvs ''hire_date'' = None \<longrightarrow> hire_date r = None)"
proof -
  from consistent_ids [OF table]
  have pos: "0 < auto_increment w" and ids: "\<forall>r' \<in> set (employees w). row_id r' < auto_increment w"
    by simp_all
  from stored have fields: "row_id r = auto_increment w \<and> created_at r = current_timestamp w \<and>
         updated_at r = current_timestamp w \<and>
         not_null (sql_varchar srv 100) (submitted kvs ''first_name'') = Inr (first_name r) \<and>
         not_null (sql_varchar srv 100) (submitted kvs ''last_name'') = Inr (last_name r) \<and>
         not_null (sql_varchar srv 255) (submitted kvs ''email'') = Inr (email r) \<and>
         or_null (sql_varchar srv 20) (submitted kvs ''phone'') = Inr (phone r) \<and>
         or_null (sql_varchar srv 100) (submitted kvs ''department'') = Inr (department r) \<and>
         or_null (sql_varchar srv 100) (submitted kvs ''position'') = Inr (position r) \<and>
         or_null (sql_decimal srv) (submitted kvs ''salary'') = Inr (salary r) \<and>
         or_null (sql_date srv) (submitted kvs ''hire_date'') = Inr (hire_date r)"
    unfolding stored_row_def by (rule new_row_fields)
  have run: "add_employee srv (Body (PDict kvs)) w =
           (Inr (created (employee_dict (row_tuple r))),
            w\<lparr>employees := employees w @ [r],
              auto_increment := auto_increment w + 1,
              statement_log := statement_log w @
                [logged (insert_of kvs), logged (SelectEmployeeById (row_id r))]\<rparr>)"
    using valid pool quiet ids stored fresh by (rule add_employee_quiet_created)
  have dict: "employee_dict (row_tuple r) =
           [(''id'', PInt (row_id r)), (''first_name'', PStr (first_name r)),
            (''last_name'', PStr (last_name r)), (''email'', PStr (email r)),
            (''phone'', nullable PStr (phone r)), (''department'', nullable PStr (department r)),
            (''position'', nullable PStr (position r)), (''salary'', nullable PDecimal (salary r)),
            (''hire_date'', nullable PDate (hire_date r)),
            (''created_at'', PStr (isoformat (current_timestamp w))),
            (''updated_at'', PStr (isoformat (current_timestamp w)))]"
    using fields by (simp add: employee_dict_row)
  have new_id: "row_id r \<notin> row_id ` set (employees w)"
    using ids fields by auto
  have nulls: "(map_of kvs ''phone'' = None \<longrightarrow> phone r = None) \<and>
         (map_of kvs ''department'' = None \<longrightarrow> department r = None) \<and>
         (map_of kvs ''position'' = None \<longrightarrow> position r = None) \<and>
         (map_of kvs ''salary'' = None \<longrightarrow> salary r = None) \<and>
         (map_of kvs ''hire_date'' = None \<longrightarrow> hire_date r = None)"
    using fields by (auto simp: submitted_missing or_null_None)
  from run dict new_id nulls fields pos show ?thesis by simp
qed


lemma row_tuple_nonempty: "row_tuple r \<noteq> []"
  by (simp add: row_tuple_def)

lemma consistent_empty: "consistent example_server empty_world"
  by (simp add: consistent_def intact_def empty_world_def)

theorem add_employee_creates_witness:
  "validate (PDict ann_fields) = Inr None \<and> connection_pool empty_world = Some (Suc 4) \<and>
   driver_script empty_world = [] \<and> consistent example_server empty_world \<and>
   stored_row example_server empty_world ann_fields = Inr ann_row \<and>
   email_key example_server (email ann_row) \<notin>
     email_key example_server ` email ` set (employees empty_world) \<and>
   add_employee example_server (Body (PDict ann_fields)) empty_world =
     (Inr (created
        [(''id'', PInt 1), (''first_name'', PStr ''Ann''), (''last_name'', PStr ''Lee''),
         (''email'', PStr ''ann@x.com''), (''phone'', PNone), (''department'', PNone),
         (''position'', PNone), (''salary'', PNone), (''hire_date'', PNone),
         (''created_at'', PStr ''2024-03-05T12:00:00''),
         (''updated_at'', PStr ''2024-03-05T12:00:00'')]),
      ann_world)"
proof -
  have h1: "validate (PDict ann_fields) = Inr None"
    using validate_ann by (simp add: ann_def)
  have h2: "connection_pool empty_world = Some (Suc 4)" and h3: "driver_script empty_world = []"
    by (simp_all add: empty_world_def pool_size_def)
  have h5: "email_key example_server (email ann_row) \<notin>
     email_key example_server ` email ` set (employees empty_world)"
    by (simp add: empty_world_def)
  have now: "current_timestamp empty_world = noon" by (simp add: empty_world_def)
  have w: "empty_world\<lparr>employees := employees empty_world @ [ann_row],
              auto_increment := auto_increment empty_world + 1,
              statement_log := statement_log empty_world @
                [logged (insert_of ann_fields), logged (SelectEmployeeById (row_id ann_row))]\<rparr> =
           ann_world"
    by (simp add: ann_world_def empty_world_def ann_row_def)
  have d: "[(''id'', PInt (row_id ann_row)), (''first_name'', PStr (first_name ann_row)),
            (''last_name'', PStr (last_name ann_row)), (''email'', PStr (email ann_row)),
            (''phone'', nullable PStr (phone ann_row)),
            (''department'', nullable PStr (department ann_row)),
            (''position'', nullable PStr (position ann_row)),
            (''salary'', nullable PDecimal (salary ann_row)),
            (''hire_date'', nullable PDate (hire_date ann_row)),
            (''created_at'', PStr (isoformat (current_timestamp empty_world))),
            (''updated_at'', PStr (isoformat (current_timestamp empty_world)))] =
        [(''id'', PInt 1), (''first_name'', PStr ''Ann''), (''last_name'', PStr ''Lee''),
         (''email'', PStr ''ann@x.com''), (''phone'', PNone), (''department'', PNone),
         (''position'', PNone), (''salary'', PNone), (''hire_date'', PNone),
         (''created_at'', PStr ''2024-03-05T12:00:00''),
         (''updated_at'', PStr ''2024-03-05T12:00:00'')]"
    by (simp add: ann_row_def nullable_def now isoformat_noon)
  from add_employee_creates [OF h1 h2 h3 consistent_empty stored_ann h5]
  have "add_employee example_server (Body (PDict ann_fields)) empty_world =
     (Inr (created
        [(''id'', PInt 1), (''first_name'', PStr ''Ann''), (''last_name'', PStr ''Lee''),
         (''email'', PStr ''ann@x.com''), (''phone'', PNone), (''department'', PNone),
         (''position'', PNone), (''salary'', PNone), (''hire_date'', PNone),
         (''created_at'', PStr ''2024-03-05T12:00:00''),
         (''updated_at'', PStr ''2024-03-05T12:00:00'')]),
      ann_world)"
    by (simp only: w d)
  with h1 h2 h3 consistent_empty stored_ann h5 show ?thesis by blast
qed

text \<open>
  A body with a phone number of 28 characters passes the validation, but a server in
  strict mode refuses the value for the \<open>VARCHAR(20)\<close> column: the create answers 500
  with \<open>Database error occurred\<close> and stores nothing.
\<close>

theorem add_employee_long_phone_counterexample:
  "validate (PDict long_phone_fields) = Inr None \<and>
   add_employee example_server (Body (PDict long_phone_fields)) empty_world =
     (Inr (error_response ''Database error occurred'' 500),
      empty_world\<lparr>statement_log := [logged (insert_of long_phone_fields)]\<rparr>) \<and>
   employees (snd (add_employee example_server (Body (PDict long_phone_fields)) empty_world)) = []"
proof -
  have h1: "validate (PDict long_phone_fields) = Inr None"
    by (simp add: validate_def required_fields_def long_phone_fields_def)
  have h2: "connection_pool empty_world = Some (Suc 4)" and h3: "driver_script empty_world = []"
    by (simp_all add: empty_world_def pool_size_def)
  have h4: "stored_row example_server empty_world long_phone_fields =
      Inl (1406, ''Data too long for column'')"
    by (simp add: store_defs example_defs long_phone_fields_def)
  from add_employee_quiet_refused [OF h1 h2 h3 h4] h1 show ?thesis
    by (simp add: empty_world_def)
qed

text \<open>
  C6 at a row with a hire date. The loop turns the two \<open>datetime\<close> values
  \<open>created_at\<close> and \<open>updated_at\<close> into ISO strings; the \<open>date\<close> value of \<open>hire_date\<close>
  fails the test \<open>isinstance(value, datetime)\<close> and goes to \<open>jsonify\<close> as the \<open>date\<close>
  object it is, not as the ISO string \<open>2024-01-15\<close>.
\<close>

theorem get_employee_keeps_date_object:
  "fst (get_employee example_server 1 hired_world) =
     Inr \<lparr>payload = PDict [(''employee'', PDict
        [(''id'', PInt 1), (''first_name'', PStr ''Bob''), (''last_name'', PStr ''Ray''),
         (''email'', PStr ''bob@x.com''), (''phone'', PNone), (''department'', PNone),
         (''position'', PNone), (''salary'', PNone),
         (''hire_date'', PDate \<lparr>year = 2024, month = 1, day = 15\<rparr>),
         (''created_at'', PStr ''2024-03-05T12:00:00''),
         (''updated_at'', PStr ''2024-03-05T12:00:00'')])],
       status = 200\<rparr>"
proof -
  have h2: "connection_pool hired_world = Some (Suc 4)" and h3: "driver_script hired_world = []"
    by (simp_all add: hired_world_def empty_world_def pool_size_def)
  have rows: "employees hired_world = [hired_row]" by (simp add: hired_world_def)
  show ?thesis
    by (simp add: get_employee_quiet [OF h2 h3] rows found_def row_tuple_nonempty employee_dict_row
        hired_row_def nullable_def isoformat_noon)
qed

text \<open>
  The same happens on a create: a body with the hire date \<open>2024-01-15\<close> is answered
  201 with a \<open>date\<close> object as \<open>hire_date\<close>.
\<close>

lemma add_employee_keeps_date_object:
  "validate hired = Inr None \<and>
   submitted hired_fields ''hire_date'' = PStr ''2024-01-15'' \<and>
   fst (add_employee example_server (Body hired) empty_world) =
     Inr (created
        [(''id'', PInt 1), (''first_name'', PStr ''Bob''), (''last_name'', PStr ''Ray''),
         (''email'', PStr ''bob@x.com''), (''phone'', PNone), (''department'', PNone),
         (''position'', PNone), (''salary'', PNone),
         (''hire_date'', PDate \<lparr>year = 2024, month = 1, day = 15\<rparr>),
         (''created_at'', PStr ''2024-03-05T12:00:00''),
         (''updated_at'', PStr ''2024-03-05T12:00:00'')]) \<and>
   PDate \<lparr>year = 2024, month = 1, day = 15\<rparr> \<noteq> submitted hired_fields ''hire_date''"
proof -
  have h1: "validate (PDict hired_fields) = Inr None"
    by (simp add: validate_def required_fields_def hired_fields_def)
  have h2: "connection_pool empty_world = Some (Suc 4)" and h3: "driver_script empty_world = []"
    by (simp_all add: empty_world_def pool_size_def)
  have h4: "\<forall>r' \<in> set (employees empty_world). row_id r' < auto_increment empty_world"
    by (simp add: empty_world_def)
  have h5: "email_key example_server (email hired_row) \<notin>
     email_key example_server ` email ` set (employees empty_world)"
    by (simp add: empty_world_def)
  have s: "submitted hired_fields ''hire_date'' = PStr ''2024-01-15''"
    by (simp add: submitted_def hired_fields_def)
  from add_employee_quiet_created [OF h1 h2 h3 h4 stored_hired h5]
  have "fst (add_employee example_server (Body hired) empty_world) =
      Inr (created (employee_dict (row_tuple hired_row)))"
    by (simp add: hired_def)
  then show ?thesis
    using h1 s by (simp add: hired_def employee_dict_row hired_row_def nullable_def isoformat_noon)
qed

subsection \<open>The statements of a request\<close>

lemma sql_text_literal: "fst (logged stmt) \<in> set query_literals"
  by (cases stmt) (simp_all add: logged_def query_literals_def)


lemmas run_defs = seq_def execute_def fetchone_def fetchall_def
  next_outcome_def raised_def fails_def opened_def finally_clause_def close_connection_def
  logged_def

lemma get_employee_log:
  "statement_log (snd (get_employee srv i w)) =
     statement_log w @
       (case fst (get_db_connection w) of Inl e \<Rightarrow> [] | Inr c \<Rightarrow> [logged (SelectEmployeeById i)])"
proof (cases "get_db_connection w")
  case (Pair x w1)
  from get_db_connection_fields [OF Pair] have log: "statement_log w1 = statement_log w" by simp
  show ?thesis
  proof (cases x)
    case (Inl e)
    with Pair log show ?thesis by (simp add: get_employee_served served_def)
  next
    case (Inr c)
    with Pair log show ?thesis
      by (auto simp: get_employee_served served_def get_employee_statements_def run_defs
          split: list.splits option.splits)
  qed
qed

lemma get_all_employees_log:
  "statement_log (snd (get_all_employees srv w)) =
     statement_log w @
       (case fst (get_db_connection w) of Inl e \<Rightarrow> [] | Inr c \<Rightarrow> [logged SelectAllEmployees])"
proof (cases "get_db_connection w")
  case (Pair x w1)
  from get_db_connection_fields [OF Pair] have log: "statement_log w1 = statement_log w" by simp
  show ?thesis
  proof (cases x)
    case (Inl e)
    with Pair log show ?thesis by (simp add: get_all_employees_served served_def)
  next
    case (Inr c)
    with Pair log show ?thesis
      by (auto simp: get_all_employees_served served_def get_all_employees_statements_def run_defs
          split: list.splits option.splits)
  qed
qed

lemma recorded_ops:
  "ensures (recorded stmts rows) fetchone (recorded stmts rows)"
  "ensures (recorded stmts rows) get_lastrowid (recorded stmts rows)"
  by (auto simp: ensures_def recorded_def in_use_def op_defs
      split: option.splits list.splits prod.splits)

lemma recorded_execute:
  "ensures (recorded stmts rows) (execute srv stmt) (recorded (stmts @ [logged stmt]) rows)"
  using run_statement_in_use run_statement_log run_statement_rows
  by (auto simp: ensures_def recorded_def in_use_def op_defs logged_def
      split: option.splits list.splits prod.splits)

lemma commit_Inl:
  assumes "commit fr = (Inl e, fr')"
  shows "statement_log (world fr') = statement_log (world fr) \<and>
         employees (world fr') = employees (world fr)"
  using assms
  by (auto simp: op_defs split: option.splits list.splits prod.splits)

lemma insert_values_Inr:
  assumes "insert_values data = Inr stmt"
  shows "\<exists>v1 v2 v3 v4 v5 v6 v7 v8. stmt = InsertEmployee v1 v2 v3 v4 v5 v6 v7 v8"
  using assms unfolding insert_values_def and_then_Inr by auto

lemma select_and_fetch_recorded:
  "ensures (recorded stmts rows)
     (seq (execute srv (SelectEmployeeById i)) (\<lambda>_.
      seq fetchone (\<lambda>employee.
      seq (lift (fetched_dict employee)) (\<lambda>d.
        lift (Inr (created d))))))
     (recorded (stmts @ [logged (SelectEmployeeById i)]) rows)"
  by (rule ensures_seq [OF recorded_execute])
     (intro keeps_seq ensures_lift recorded_ops, simp)

lemma add_employee_statements_log:
  assumes iv: "insert_values data = Inr stmt" and c: "pending c = []"
  shows "statement_log (world (snd (add_employee_statements srv data (opened c w1)))) =
      statement_log w1 @ logged stmt #
        (if employees (world (snd (add_employee_statements srv data (opened c w1)))) = employees w1
         then [] else [logged (SelectEmployeeById (auto_increment w1))]) \<and>
     (employees (world (snd (add_employee_statements srv data (opened c w1)))) = employees w1 \<or>
      (\<exists>r. employees (world (snd (add_employee_statements srv data (opened c w1)))) =
             employees w1 @ [r] \<and> row_id r = auto_increment w1))"
proof -
  let ?log = "statement_log w1 @ [logged stmt]"
  let ?rest = "\<lambda>_::unit. seq commit (\<lambda>_.
     seq get_lastrowid (\<lambda>employee_id.
     seq (execute srv (SelectEmployeeById employee_id)) (\<lambda>_.
     seq fetchone (\<lambda>employee.
     seq (lift (fetched_dict employee)) (\<lambda>d.
       lift (Inr (created d)))))))"
  have run: "add_employee_statements srv data (opened c w1) =
      seq (execute srv stmt) ?rest (opened c w1)"
    by (simp add: add_employee_statements_def iv)
  have "recorded (statement_log w1) (employees w1) (opened c w1)"
    by (simp add: recorded_def in_use_def opened_def)
  with recorded_execute [of "statement_log w1" "employees w1" srv stmt]
  have r1: "recorded ?log (employees w1) (snd (execute srv stmt (opened c w1)))"
    by (simp add: ensures_def)
  show ?thesis
  proof (cases "execute srv stmt (opened c w1)")
    case (Pair x1 fr1)
    with r1 have rec1: "recorded ?log (employees w1) fr1" by simp
    show ?thesis
    proof (cases x1)
      case (Inl e)
      with Pair rec1 show ?thesis by (simp add: run seq_def recorded_def)
    next
      case (Inr u1)
      let ?w2 = "popped (w1\<lparr>statement_log := statement_log w1 @ [logged stmt]\<rparr>)"
      from execute_Inr [of srv stmt "opened c w1" u1 fr1 c "\<lparr>lastrowid = 0, result_set = []\<rparr>"]
        Pair Inr
      have "run_statement srv stmt c \<lparr>lastrowid = 0, result_set = []\<rparr> ?w2 = (Inr u1, fr1)"
        by (simp add: opened_def)
      with insert_values_Inr [OF iv]
      have "\<exists>r. row_id r = auto_increment w1 \<and>
              fr1 = \<lparr>world = ?w2\<lparr>auto_increment := auto_increment w1 + 1\<rparr>,
                  connection = Some (c\<lparr>pending := [r]\<rparr>),
                  cursor = Some \<lparr>lastrowid = row_id r, result_set = []\<rparr>\<rparr>"
      proof -
        from insert_values_Inr [OF iv] obtain v1 v2 v3 v4 v5 v6 v7 v8
          where stmt: "stmt = InsertEmployee v1 v2 v3 v4 v5 v6 v7 v8" by blast
        with \<open>run_statement srv stmt c \<lparr>lastrowid = 0, result_set = []\<rparr> ?w2 = (Inr u1, fr1)\<close>
        have "run_insert srv v1 v2 v3 v4 v5 v6 v7 v8 c \<lparr>lastrowid = 0, result_set = []\<rparr> ?w2 =
            (Inr u1, fr1)" by simp
        from run_insert_Inr [OF this] obtain r where
          nr: "new_row srv (auto_increment ?w2) (current_timestamp ?w2) v1 v2 v3 v4 v5 v6 v7 v8 = Inr r"
          and fr: "fr1 = \<lparr>world = ?w2\<lparr>auto_increment := auto_increment ?w2 + 1\<rparr>,
                  connection = Some (c\<lparr>pending := pending c @ [r]\<rparr>),
                  cursor = Some \<lparr>lastrowid = row_id r, result_set = []\<rparr>\<rparr>"
          by blast
        from new_row_fields [OF nr] have "row_id r = auto_increment w1" by simp
        with fr show ?thesis by (intro exI [of _ r]) (simp add: c)
      qed
      then obtain r where
        rid: "row_id r = auto_increment w1"
        and fr1: "fr1 = \<lparr>world = ?w2\<lparr>auto_increment := auto_increment w1 + 1\<rparr>,
                  connection = Some (c\<lparr>pending := [r]\<rparr>),
                  cursor = Some \<lparr>lastrowid = row_id r, result_set = []\<rparr>\<rparr>"
        by blast
      show ?thesis
      proof (cases "commit fr1")
        case (Pair x2 fr2)
        note cm = this
        show ?thesis
        proof (cases x2)
          case (Inl e)
          with cm commit_Inl [of fr1 e fr2] rec1
          have "statement_log (world fr2) = ?log" and "employees (world fr2) = employees w1"
            by (simp_all add: recorded_def)
          with \<open>execute srv stmt (opened c w1) = (x1, fr1)\<close> Inr cm Inl show ?thesis
            by (simp add: run seq_def)
        next
          case (Inr u2)
          with cm commit_Inr [of fr1 u2 fr2 "c\<lparr>pending := [r]\<rparr>"] fr1
          have fr2: "fr2 = \<lparr>world = (popped ?w2)\<lparr>auto_increment := auto_increment w1 + 1,
                        employees := employees w1 @ [r]\<rparr>,
                  connection = Some (c\<lparr>pending := []\<rparr>),
                  cursor = Some \<lparr>lastrowid = row_id r, result_set = []\<rparr>\<rparr>"
            by (simp add: popped_def)
          then have "recorded ?log (employees w1 @ [r]) fr2"
            by (simp add: recorded_def in_use_def)
          with select_and_fetch_recorded [of ?log "employees w1 @ [r]" srv "row_id r"]
          have "recorded (?log @ [logged (SelectEmployeeById (row_id r))]) (employees w1 @ [r])
             (snd (seq (execute srv (SelectEmployeeById (row_id r))) (\<lambda>_.
                seq fetchone (\<lambda>employee.
                seq (lift (fetched_dict employee)) (\<lambda>d.
                  lift (Inr (created d))))) fr2))"
            by (simp add: ensures_def)
          moreover have "get_lastrowid fr2 = (Inr (row_id r), fr2)"
            by (simp add: get_lastrowid_def fr2)
          ultimately show ?thesis
            using \<open>execute srv stmt (opened c w1) = (x1, fr1)\<close> \<open>x1 = Inr u1\<close> cm Inr
            by (simp add: run seq_def [of "execute srv stmt"] seq_def [of commit]
                seq_def [of get_lastrowid] recorded_def rid)
        qed
      qed
    qed
  qed
qed

lemma finally_log:
  "statement_log (snd (finally_clause resp fr)) = statement_log (world fr)"
  "employees (snd (finally_clause resp fr)) = employees (world fr)"
  using finally_world [of resp fr] by auto

lemma add_employee_log:
  "statement_log (snd (add_employee srv req w)) =
     statement_log w @
       (case get_json req of
          Inl e \<Rightarrow> []
        | Inr data \<Rightarrow>
            (case validate data of
               Inl e \<Rightarrow> []
             | Inr (Some rejection) \<Rightarrow> []
             | Inr None \<Rightarrow>
                 (case fst (get_db_connection w) of
                    Inl e \<Rightarrow> []
                  | Inr c \<Rightarrow>
                      (case insert_values data of
                         Inl e \<Rightarrow> []
                       | Inr stmt \<Rightarrow>
                           logged stmt #
                             (if employees (snd (add_employee srv req w)) = employees w then []
                              else [logged (SelectEmployeeById (auto_increment w))]))))) \<and>
   (employees (snd (add_employee srv req w)) = employees w \<or>
    (\<exists>r. employees (snd (add_employee srv req w)) = employees w @ [r] \<and>
         row_id r = auto_increment w))"
proof (cases "get_json req")
  case (Inl e)
  then show ?thesis by (simp add: add_employee_cases)
next
  case (Inr data)
  note gj = this
  show ?thesis
  proof (cases "validate data")
    case (Inl e)
    with gj show ?thesis by (simp add: add_employee_cases)
  next
    case (Inr invalid)
    note v = this
    show ?thesis
    proof (cases invalid)
      case (Some r)
      with gj v show ?thesis by (simp add: add_employee_cases)
    next
      case None
      with v validate_None_dict [of data] obtain kvs where d: "data = PDict kvs" by auto
      with v None have iv: "insert_values data = Inr (insert_of kvs)"
        by (simp add: insert_values_passed)
      have run: "add_employee srv req w =
          served (add_employee_statements srv data) add_employee_except w"
        using gj v None by (simp add: add_employee_cases)
      show ?thesis
      proof (cases "get_db_connection w")
        case (Pair x w1)
        from get_db_connection_fields [OF Pair]
        have same: "statement_log w1 = statement_log w" "employees w1 = employees w"
          "auto_increment w1 = auto_increment w" by simp_all
        show ?thesis
        proof (cases x)
          case (Inl e)
          with Pair gj v None same show ?thesis by (simp add: run served_def)
        next
          case (Inr c)
          with Pair have "pending c = []" using get_db_connection_Inr [of w c w1] by auto
          from add_employee_statements_log [OF iv this, of srv w1]
          show ?thesis
            using Pair Inr gj v None iv same
            by (simp add: run served_def case_prod_unfold finally_log)
        qed
      qed
    qed
  qed
qed

lemma logged_statements:
  "logged (insert_of pairs) =
     (query_literals ! 0,
      map (submitted pairs) [''first_name'', ''last_name'', ''email'', ''phone'', ''department'',
        ''position'', ''salary'', ''hire_date''])"
  "logged (SelectEmployeeById i) = (query_literals ! 1, [PInt i])"
  "logged SelectAllEmployees = (query_literals ! 2, [])"
  by (simp_all add: logged_def insert_of_def query_literals_def)

lemma insert_values_valid:
  assumes "validate data = Inr None"
  shows "\<exists>kvs. data = PDict kvs \<and> insert_values data = Inr (insert_of kvs)"
proof -
  from assms validate_None_dict [of data] obtain kvs where d: "data = PDict kvs" by auto
  with assms have "insert_values data = Inr (insert_of kvs)" by (simp add: insert_values_passed)
  with d show ?thesis by blast
qed

text \<open>
  C5, as the code has it. A create passes no statement to \<open>cursor.execute\<close> when the
  body is absent, when the validation raises or rejects, and when it gets no connection.
  Otherwise it passes the \<open>INSERT\<close> with the eight values of the body and, exactly
  when the insertion was committed (the table has one more row, whose id is the counter
  of the table), a second statement: the \<open>SELECT\<close> by that id. get-by-id and get-all
  pass exactly one statement once they hold a connection, and none when they get no
  connection. The text of a statement is always one of the three literals of
  \<open>app.py\<close>, whatever the request: the values of the request travel in the parameter
  tuple only.
\<close>

theorem statements_per_request:
  "statement_log (snd (add_employee srv req w)) =
     statement_log w @
       (case get_json req of
          Inl e \<Rightarrow> []
        | Inr body \<Rightarrow>
            (case validate body of
               Inl e \<Rightarrow> []
             | Inr (Some rejection) \<Rightarrow> []
             | Inr None \<Rightarrow>
                 (case fst (get_db_connection w) of
                    Inl e \<Rightarrow> []
                  | Inr c \<Rightarrow>
                      (case insert_values body of
                         Inl e \<Rightarrow> []
                       | Inr q \<Rightarrow>
                           logged q #
                             (if employees (snd (add_employee srv req w)) = employees w then []
                              else [logged (SelectEmployeeById (auto_increment w))]))))) \<and>
   (employees (snd (add_employee srv req w)) = employees w \<or>
    (\<exists>r. employees (snd (add_employee srv req w)) = employees w @ [r] \<and>
         row_id r = auto_increment w)) \<and>
   (validate data = Inr None \<longrightarrow>
      (\<exists>kvs. data = PDict kvs \<and> insert_values data = Inr (insert_of kvs))) \<and>
   logged (insert_of pairs) =
     (query_literals ! 0,
      map (submitted pairs) [''first_name'', ''last_name'', ''email'', ''phone'', ''department'',
        ''position'', ''salary'', ''hire_date'']) \<and>
   logged (SelectEmployeeById employee_id) = (query_literals ! 1, [PInt employee_id]) \<and>
   logged SelectAllEmployees = (query_literals ! 2, []) \<and>
   statement_log (snd (get_employee srv employee_id w)) =
     statement_log w @
       (case fst (get_db_connection w) of
          Inl e \<Rightarrow> [] | Inr c \<Rightarrow> [logged (SelectEmployeeById employee_id)]) \<and>
   statement_log (snd (get_all_employees srv w)) =
     statement_log w @
       (case fst (get_db_connection w) of Inl e \<Rightarrow> [] | Inr c \<Rightarrow> [logged SelectAllEmployees]) \<and>
   fst (logged stmt) \<in> set query_literals"
  using add_employee_log [of srv req w] insert_values_valid [of data]
    get_employee_log [of srv employee_id w]
    get_all_employees_log [of srv w] sql_text_literal [of stmt]
    logged_statements(1) [of pairs] logged_statements(2) [of employee_id] logged_statements(3)
  by blast

theorem statements_per_request_witness:
  "validate ann = Inr None \<and>
   insert_values ann = Inr (insert_of ann_fields) \<and>
   statement_log (snd (add_employee example_server (Body ann) ann_world)) =
     statement_log ann_world @ [logged (insert_of ann_fields)] \<and>
   statement_log (snd (get_employee example_server 1 ann_world)) =
     statement_log ann_world @ [logged (SelectEmployeeById 1)]"
proof -
  have h1: "validate (PDict ann_fields) = Inr None"
    using validate_ann by (simp add: ann_def)
  have h2: "connection_pool ann_world = Some (Suc 4)" and h3: "driver_script ann_world = []"
    by (simp_all add: ann_world_def example_defs)
  have h5: "email_key example_server (email (ann_row\<lparr>row_id := 2\<rparr>)) \<in>
     email_key example_server ` email ` set (employees ann_world)"
    by (simp add: ann_world_def)
  from add_employee_quiet_duplicate [OF h1 h2 h3 stored_ann_again h5]
  have same: "employees (snd (add_employee example_server (Body ann) ann_world)) =
      employees ann_world"
    by (simp add: ann_def)
  have conn: "fst (get_db_connection ann_world) = Inr \<lparr>connected = True, pending = []\<rparr>"
    by (simp add: get_db_connection_quiet [OF h2 h3])
  have iv: "insert_values ann = Inr (insert_of ann_fields)"
    using insert_values_passed [OF h1] by (simp add: ann_def)
  from statements_per_request [where srv = example_server and req = "Body ann"
      and w = ann_world and data = ann and employee_id = 1]
  show ?thesis
    using validate_ann same conn iv by simp
qed

text \<open>
  The create of the employee Ann in the empty table passes two statements to
  \<open>cursor.execute\<close>, not one.
\<close>

theorem create_runs_two_statements_counterexample:
  "statement_log (snd (add_employee example_server (Body ann) empty_world)) =
     statement_log empty_world @
       [logged (insert_of ann_fields), logged (SelectEmployeeById 1)] \<and>
   length (statement_log (snd (add_employee example_server (Body ann) empty_world))) =
     length (statement_log empty_world) + 2"
  by (simp add: eval_defs example_defs logged_def insert_of_def submitted_def)

subsection \<open>Rows over a sequence of requests\<close>

lemma status_except_Inl: "status (add_employee_except (Inl e)) \<noteq> 201"
  using add_employee_except_Inl [of e] by auto

lemma add_employee_created_then:
  assumes run: "add_employee srv req w = (Inr resp, w')"
    and st: "status resp = 201"
    and ids: "\<forall>r' \<in> set (employees w). row_id r' < auto_increment w"
  shows "\<exists>kvs r. req = Body (PDict kvs) \<and> stored_row srv w kvs = Inr r \<and>
           resp = created (employee_dict (row_tuple r)) \<and> employees w' = employees w @ [r]"
proof (cases req)
  case NoBody
  with run st show ?thesis by (auto simp: add_employee_cases)
next
  case (Body data)
  show ?thesis
  proof (cases "validate data")
    case (Inl e)
    with Body run st show ?thesis by (auto simp: add_employee_cases)
  next
    case (Inr invalid)
    show ?thesis
    proof (cases invalid)
      case (Some r)
      with Inr Body run st validate_rejection_status [of data r] show ?thesis
        by (auto simp: add_employee_cases)
    next
      case None
      with Inr obtain kvs where data: "data = PDict kvs"
        using validate_None_dict by blast
      from Inr None data have valid: "validate (PDict kvs) = Inr None" by simp
      from Body Inr None run
      have served: "served (add_employee_statements srv data) add_employee_except w = (Inr resp, w')"
        by (simp add: add_employee_cases)
      obtain x w1 where conn: "get_db_connection w = (x, w1)"
        by (cases "get_db_connection w")
      from get_db_connection_fields [OF conn]
      have same: "employees w1 = employees w" "auto_increment w1 = auto_increment w"
        "current_timestamp w1 = current_timestamp w" by simp_all
      show ?thesis
      proof (cases x)
        case (Inl e)
        with conn served st status_except_Inl [of e] show ?thesis
          by (auto simp: served_def)
      next
        case c: (Inr c)
        with conn have pend: "pending c = []"
          using get_db_connection_Inr [of w c w1] by auto
        obtain y fr where k: "add_employee_statements srv data (opened c w1) = (y, fr)"
          by (cases "add_employee_statements srv data (opened c w1)")
        from conn c k served
        have fin: "finally_clause (add_employee_except y) fr = (Inr resp, w')"
          by (simp add: served_def)
        then have resp: "resp = add_employee_except y"
          using finally_fst [of "add_employee_except y" fr resp] by simp
        show ?thesis
        proof (cases y)
          case (Inl e)
          with resp st status_except_Inl [of e] show ?thesis by simp
        next
          case (Inr r0)
          with resp have r0: "r0 = resp" by simp
          from ids same have ids1: "\<forall>r' \<in> set (employees w1). row_id r' < auto_increment w1"
            by simp
          from k Inr r0 data
          have "add_employee_statements srv (PDict kvs) (opened c w1) = (Inr resp, fr)" by simp
          from add_employee_statements_Inr [OF this valid pend ids1]
          obtain r where st1: "stored_row srv w1 kvs = Inr r"
            and created: "resp = created (employee_dict (row_tuple r))"
            and rows: "employees (world fr) = employees w1 @ [r]" by blast
          from st1 same have st0: "stored_row srv w kvs = Inr r" by (simp add: stored_row_def)
          from fin finally_world [of "add_employee_except y" fr]
          have "employees w' = employees (world fr)" by auto
          with rows same have "employees w' = employees w @ [r]" by simp
          with Body data st0 created show ?thesis by blast
        qed
      qed
    qed
  qed
qed

lemma route_rows: "\<exists>more. employees (snd (route srv req w)) = employees w @ more"
  by (cases req) (simp_all add: add_employee_rows get_employee_facts get_all_employees_facts)

lemma route_consistent: "consistent srv w \<Longrightarrow> consistent srv (snd (route srv req w))"
  by (cases req) (simp_all add: add_employee_consistent get_employee_facts get_all_employees_facts)

lemma serve_rows: "\<exists>more. employees (serve srv reqs w) = employees w @ more"
proof (induction reqs arbitrary: w)
  case Nil
  show ?case by simp
next
  case (Cons req reqs)
  from route_rows [of srv req w] obtain m1 where "employees (snd (route srv req w)) = employees w @ m1"
    by blast
  moreover from Cons [of "snd (route srv req w)"] obtain m2 where
    "employees (serve srv reqs (snd (route srv req w))) = employees (snd (route srv req w)) @ m2"
    by blast
  ultimately show ?case by simp
qed

lemma serve_consistent: "consistent srv w \<Longrightarrow> consistent srv (serve srv reqs w)"
  by (induction reqs arbitrary: w) (simp_all add: route_consistent)

subsection \<open>Reading the table\<close>

lemma filter_id_distinct:
  "r \<in> set rows \<Longrightarrow> distinct (map row_id rows) \<Longrightarrow>
     filter (\<lambda>r'. row_id r' = row_id r) rows = [r]"
proof (induction rows)
  case Nil
  then show ?case by simp
next
  case (Cons x rows)
  show ?case
  proof (cases "x = r")
    case True
    with Cons.prems have "row_id r \<notin> row_id ` set rows" by simp
    then have "filter (\<lambda>r'. row_id r' = row_id r) rows = []"
      by (induction rows) auto
    with True show ?thesis by simp
  next
    case False
    with Cons.prems have "r \<in> set rows" and "row_id x \<noteq> row_id r" by auto
    with Cons show ?thesis by simp
  qed
qed

lemma found_row:
  "found (Some (row_tuple r)) =
     \<lparr>payload = PDict [(''employee'', PDict (employee_dict (row_tuple r)))], status = 200\<rparr>"
  by (simp add: found_def row_tuple_nonempty)

lemma created_row_kept:
  assumes "consistent srv w0" and "add_employee srv req w0 = (Inr resp, w1)"
    and "status resp = 201"
  shows "\<exists>r \<in> set (employees (serve srv reqs w1)).
           resp = created (employee_dict (row_tuple r)) \<and>
           consistent srv (serve srv reqs w1)"
proof -
  from consistent_ids [OF assms(1)]
  have "\<forall>r' \<in> set (employees w0). row_id r' < auto_increment w0" by simp
  from add_employee_created_then [OF assms(2,3) this]
  obtain r where resp: "resp = created (employee_dict (row_tuple r))"
    and rows: "employees w1 = employees w0 @ [r]" by blast
  from serve_rows [of srv reqs w1] rows have "r \<in> set (employees (serve srv reqs w1))" by auto
  moreover from add_employee_consistent [OF assms(1), of req] assms(2)
  have "consistent srv w1" by simp
  then have "consistent srv (serve srv reqs w1)" by (rule serve_consistent)
  ultimately show ?thesis using resp by blast
qed

text \<open>
  C7. When the pool gives a connection and no call into the driver fails, get-all
  answers 200 with the rows of the table in ascending order of id, every row once, and
  with a count that is the number of rows in the answer. Every employee that an earlier
  create on an intact table answered with 201 is among them, whatever requests were
  served in between.
\<close>

theorem get_all_employees_lists_the_table:
  assumes pool: "connection_pool w = Some (Suc idle)" and quiet: "driver_script w = []"
  shows "fst (get_all_employees srv w) =
           Inr \<lparr>payload = PDict
                  [(''employees'',
                    PList (map (\<lambda>r. PDict (employee_dict (row_tuple r)))
                             (sort_key row_id (employees w)))),
                   (''count'', PInt (int (length (sort_key row_id (employees w)))))],
                status = 200\<rparr> \<and>
         sorted (map row_id (sort_key row_id (employees w))) \<and>
         mset (sort_key row_id (employees w)) = mset (employees w) \<and>
         (\<forall>w0 req resp w1 reqs.
            consistent srv w0 \<and> add_employee srv req w0 = (Inr resp, w1) \<and> status resp = 201 \<and>
            w = serve srv reqs w1 \<longrightarrow>
            (\<exists>r \<in> set (sort_key row_id (employees w)).
               resp = created (employee_dict (row_tuple r))))"
proof (intro conjI allI impI)
  show "fst (get_all_employees srv w) =
           Inr \<lparr>payload = PDict
                  [(''employees'',
                    PList (map (\<lambda>r. PDict (employee_dict (row_tuple r)))
                             (sort_key row_id (employees w)))),
                   (''count'', PInt (int (length (sort_key row_id (employees w)))))],
                status = 200\<rparr>"
    by (simp add: get_all_employees_quiet [OF pool quiet] listing_def comp_def)
  show "sorted (map row_id (sort_key row_id (employees w)))" by simp
  show "mset (sort_key row_id (employees w)) = mset (employees w)" by simp
next
  fix w0 req resp w1 reqs
  assume "consistent srv w0 \<and> add_employee srv req w0 = (Inr resp, w1) \<and> status resp = 201 \<and>
            w = serve srv reqs w1"
  with created_row_kept [of srv w0 req resp w1 reqs]
  show "\<exists>r \<in> set (sort_key row_id (employees w)). resp = created (employee_dict (row_tuple r))"
    by auto
qed

text \<open>
  C8. When the pool gives a connection and no call into the driver fails, get-by-id
  answers 404 with \<open>Employee not found\<close> for an id that no row has, and 200 with the
  row for the id of a row (ids being the primary key, there is one such row). The row
  is the one written for that id: a get-by-id for the id of an employee that an earlier
  create on an intact table answered with 201 gives that employee again, whatever
  requests were served in between.
\<close>

theorem get_employee_by_id:
  assumes pool: "connection_pool w = Some (Suc idle)" and quiet: "driver_script w = []"
  shows "((\<forall>r \<in> set (employees w). row_id r \<noteq> employee_id) \<longrightarrow>
            fst (get_employee srv employee_id w) =
              Inr (error_response ''Employee not found'' 404)) \<and>
         (\<forall>r. r \<in> set (employees w) \<and> row_id r = employee_id \<and>
              distinct (map row_id (employees w)) \<longrightarrow>
            fst (get_employee srv employee_id w) =
              Inr \<lparr>payload = PDict [(''employee'', PDict (employee_dict (row_tuple r)))],
                    status = 200\<rparr>) \<and>
         (\<forall>w0 req resp w1 reqs.
            consistent srv w0 \<and> add_employee srv req w0 = (Inr resp, w1) \<and> status resp = 201 \<and>
            w = serve srv reqs w1 \<longrightarrow>
            (\<exists>r. resp = created (employee_dict (row_tuple r)) \<and>
               fst (get_employee srv (row_id r) w) =
                 Inr \<lparr>payload = PDict [(''employee'', PDict (employee_dict (row_tuple r)))],
                       status = 200\<rparr>))"
proof (intro conjI allI impI)
  assume "\<forall>r \<in> set (employees w). row_id r \<noteq> employee_id"
  then have "filter (\<lambda>r. row_id r = employee_id) (employees w) = []"
    by (auto simp: filter_empty_conv)
  then show "fst (get_employee srv employee_id w) =
              Inr (error_response ''Employee not found'' 404)"
    by (simp add: get_employee_quiet [OF pool quiet] found_def)
next
  fix r
  assume "r \<in> set (employees w) \<and> row_id r = employee_id \<and> distinct (map row_id (employees w))"
  then have "filter (\<lambda>r'. row_id r' = employee_id) (employees w) = [r]"
    using filter_id_distinct [of r "employees w"] by auto
  then show "fst (get_employee srv employee_id w) =
              Inr \<lparr>payload = PDict [(''employee'', PDict (employee_dict (row_tuple r)))],
                    status = 200\<rparr>"
    by (simp add: get_employee_quiet [OF pool quiet] found_row)
next
  fix w0 req resp w1 reqs
  assume h: "consistent srv w0 \<and> add_employee srv req w0 = (Inr resp, w1) \<and> status resp = 201 \<and>
            w = serve srv reqs w1"
  with created_row_kept [of srv w0 req resp w1 reqs]
  obtain r where r: "r \<in> set (employees w)" and resp: "resp = created (employee_dict (row_tuple r))"
    and c: "consistent srv w" by auto
  from c have "distinct (map row_id (employees w))" by (simp add: consistent_def intact_def)
  with r have "filter (\<lambda>r'. row_id r' = row_id r) (employees w) = [r]"
    by (rule filter_id_distinct)
  then have "fst (get_employee srv (row_id r) w) =
                 Inr \<lparr>payload = PDict [(''employee'', PDict (employee_dict (row_tuple r)))],
                       status = 200\<rparr>"
    by (simp add: get_employee_quiet [OF pool quiet] found_row)
  with resp show "\<exists>r. resp = created (employee_dict (row_tuple r)) \<and>
               fst (get_employee srv (row_id r) w) =
                 Inr \<lparr>payload = PDict [(''employee'', PDict (employee_dict (row_tuple r)))],
                       status = 200\<rparr>"
    by blast
qed


lemma create_ann:
  "add_employee example_server (Body ann) empty_world =
     (Inr (created (employee_dict (row_tuple ann_row))), ann_world)"
proof -
  have h1: "validate (PDict ann_fields) = Inr None"
    using validate_ann by (simp add: ann_def)
  have h2: "connection_pool empty_world = Some (Suc 4)" and h3: "driver_script empty_world = []"
    by (simp_all add: empty_world_def pool_size_def)
  have h4: "\<forall>r' \<in> set (employees empty_world). row_id r' < auto_increment empty_world"
    by (simp add: empty_world_def)
  have h5: "email_key example_server (email ann_row) \<notin>
     email_key example_server ` email ` set (employees empty_world)"
    by (simp add: empty_world_def)
  have w: "empty_world\<lparr>employees := employees empty_world @ [ann_row],
              auto_increment := auto_increment empty_world + 1,
              statement_log := statement_log empty_world @
                [logged (insert_of ann_fields), logged (SelectEmployeeById (row_id ann_row))]\<rparr> =
           ann_world"
    by (simp add: ann_world_def empty_world_def ann_row_def)
  from add_employee_quiet_created [OF h1 h2 h3 h4 stored_ann h5] show ?thesis
    by (simp only: w ann_def)
qed

lemma ann_world_facts:
  "connection_pool ann_world = Some (Suc 4)" "driver_script ann_world = []"
  "employees ann_world = [ann_row]"
  by (simp_all add: ann_world_def empty_world_def pool_size_def)

lemma ann_dict:
  "employee_dict (row_tuple ann_row) =
     [(''id'', PInt 1), (''first_name'', PStr ''Ann''), (''last_name'', PStr ''Lee''),
      (''email'', PStr ''ann@x.com''), (''phone'', PNone), (''department'', PNone),
      (''position'', PNone), (''salary'', PNone), (''hire_date'', PNone),
      (''created_at'', PStr ''2024-03-05T12:00:00''),
      (''updated_at'', PStr ''2024-03-05T12:00:00'')]"
  by (simp add: employee_dict_row ann_row_def nullable_def isoformat_noon)

theorem get_all_employees_lists_the_table_witness:
  "connection_pool ann_world = Some (Suc 4) \<and> driver_script ann_world = [] \<and>
   consistent example_server empty_world \<and>
   add_employee example_server (Body ann) empty_world =
     (Inr (created (employee_dict (row_tuple ann_row))), ann_world) \<and>
   status (created (employee_dict (row_tuple ann_row))) = 201 \<and>
   ann_world = serve example_server [] ann_world \<and>
   fst (get_all_employees example_server ann_world) =
     Inr \<lparr>payload = PDict
            [(''employees'',
              PList [PDict
                [(''id'', PInt 1), (''first_name'', PStr ''Ann''), (''last_name'', PStr ''Lee''),
                 (''email'', PStr ''ann@x.com''), (''phone'', PNone), (''department'', PNone),
                 (''position'', PNone), (''salary'', PNone), (''hire_date'', PNone),
                 (''created_at'', PStr ''2024-03-05T12:00:00''),
                 (''updated_at'', PStr ''2024-03-05T12:00:00'')]]),
             (''count'', PInt 1)],
          status = 200\<rparr> \<and>
   (\<exists>r \<in> set (sort_key row_id (employees ann_world)).
      created (employee_dict (row_tuple ann_row)) = created (employee_dict (row_tuple r)))"
proof -
  note t = get_all_employees_lists_the_table [OF ann_world_facts(1,2), of example_server]
  have s: "status (created (employee_dict (row_tuple ann_row))) = 201" by simp
  have e: "ann_world = serve example_server [] ann_world" by simp
  from t have "fst (get_all_employees example_server ann_world) =
     Inr \<lparr>payload = PDict
            [(''employees'',
              PList [PDict
                [(''id'', PInt 1), (''first_name'', PStr ''Ann''), (''last_name'', PStr ''Lee''),
                 (''email'', PStr ''ann@x.com''), (''phone'', PNone), (''department'', PNone),
                 (''position'', PNone), (''salary'', PNone), (''hire_date'', PNone),
                 (''created_at'', PStr ''2024-03-05T12:00:00''),
                 (''updated_at'', PStr ''2024-03-05T12:00:00'')]]),
             (''count'', PInt 1)],
          status = 200\<rparr>"
    by (simp add: ann_world_facts ann_dict)
  moreover from t consistent_empty create_ann s e
  have "\<exists>r \<in> set (sort_key row_id (employees ann_world)).
      created (employee_dict (row_tuple ann_row)) = created (employee_dict (row_tuple r))"
    by blast
  ultimately show ?thesis
    using ann_world_facts(1,2) consistent_empty create_ann s e by blast
qed

theorem get_employee_by_id_witness:
  "connection_pool ann_world = Some (Suc 4) \<and> driver_script ann_world = [] \<and>
   map row_id (employees ann_world) = [1] \<and>
   fst (get_employee example_server 7 ann_world) =
     Inr (error_response ''Employee not found'' 404) \<and>
   ann_row \<in> set (employees ann_world) \<and> row_id ann_row = 1 \<and>
   distinct (map row_id (employees ann_world)) \<and>
   fst (get_employee example_server 1 ann_world) =
     Inr \<lparr>payload = PDict [(''employee'', PDict
            [(''id'', PInt 1), (''first_name'', PStr ''Ann''), (''last_name'', PStr ''Lee''),
             (''email'', PStr ''ann@x.com''), (''phone'', PNone), (''department'', PNone),
             (''position'', PNone), (''salary'', PNone), (''hire_date'', PNone),
             (''created_at'', PStr ''2024-03-05T12:00:00''),
             (''updated_at'', PStr ''2024-03-05T12:00:00'')])],
          status = 200\<rparr> \<and>
   consistent example_server empty_world \<and>
   add_employee example_server (Body ann) empty_world =
     (Inr (created (employee_dict (row_tuple ann_row))), ann_world) \<and>
   status (created (employee_dict (row_tuple ann_row))) = 201 \<and>
   ann_world = serve example_server [] ann_world \<and>
   (\<exists>r. created (employee_dict (row_tuple ann_row)) = created (employee_dict (row_tuple r)) \<and>
        fst (get_employee example_server (row_id r) ann_world) =
          Inr \<lparr>payload = PDict [(''employee'', PDict (employee_dict (row_tuple r)))],
                status = 200\<rparr>)"
proof -
  note t7 = get_employee_by_id [OF ann_world_facts(1,2), of 7 example_server]
  note t1 = get_employee_by_id [OF ann_world_facts(1,2), of 1 example_server]
  have a: "\<forall>r \<in> set (employees ann_world). row_id r \<noteq> 7"
    by (simp add: ann_world_facts ann_row_def)
  have b: "ann_row \<in> set (employees ann_world)" "row_id ann_row = 1"
    "distinct (map row_id (employees ann_world))"
    by (simp_all add: ann_world_facts ann_row_def)
  have s: "status (created (employee_dict (row_tuple ann_row))) = 201" by simp
  have e: "ann_world = serve example_server [] ann_world" by simp
  from t7 a have c7: "fst (get_employee example_server 7 ann_world) =
     Inr (error_response ''Employee not found'' 404)" by blast
  from t1 b have "fst (get_employee example_server 1 ann_world) =
     Inr \<lparr>payload = PDict [(''employee'', PDict (employee_dict (row_tuple ann_row)))],
          status = 200\<rparr>" by blast
  then have c1: "fst (get_employee example_server 1 ann_world) =
     Inr \<lparr>payload = PDict [(''employee'', PDict
            [(''id'', PInt 1), (''first_name'', PStr ''Ann''), (''last_name'', PStr ''Lee''),
             (''email'', PStr ''ann@x.com''), (''phone'', PNone), (''department'', PNone),
             (''position'', PNone), (''salary'', PNone), (''hire_date'', PNone),
             (''created_at'', PStr ''2024-03-05T12:00:00''),
             (''updated_at'', PStr ''2024-03-05T12:00:00'')])],
          status = 200\<rparr>"
    by (simp only: ann_dict)
  from t1 consistent_empty create_ann s e
  have c3: "\<exists>r. created (employee_dict (row_tuple ann_row)) = created (employee_dict (row_tuple r)) \<and>
        fst (get_employee example_server (row_id r) ann_world) =
          Inr \<lparr>payload = PDict [(''employee'', PDict (employee_dict (row_tuple r)))],
                status = 200\<rparr>"
    by blast
  have ids: "map row_id (employees ann_world) = [1]"
    by (simp add: ann_world_facts ann_row_def)
  from ann_world_facts(1,2) ids c7 b c1 consistent_empty create_ann s e c3
  show ?thesis by blast
qed

end
